theory Spec2Isabelle
  imports Main "HOL-Library.Word"
begin

section \<open>JavaScript values\<close>

text \<open>
  The server of \<^verbatim>\<open>src/src/server-final.js\<close> (the second, later program of that file: the one
  with the \<^verbatim>\<open>pr\<close>, \<^verbatim>\<open>token\<close> and \<^verbatim>\<open>logs\<close> tools and the AUTO flags) is embedded function by
  function. A JavaScript string is a sequence of 16-bit code units, so that \<^verbatim>\<open>length\<close>,
  \<^verbatim>\<open>trim\<close> and the character classes of the regular expressions mean what they mean in
  the source.
\<close>

type_synonym jsstr = "16 word list"

definition str :: "string \<Rightarrow> jsstr" where
  "str s = map of_char s"

text \<open>
  Values as \<^verbatim>\<open>JSON.parse\<close> produces them, and \<^verbatim>\<open>undefined\<close>. Numbers are the integers
  among JavaScript's doubles. An object is its list of own properties, each key once.
\<close>

datatype json =
    JUndef
  | JNull
  | JBool bool
  | JNum int
  | JStr jsstr
  | JArr "json list"
  | JObj "(jsstr \<times> json) list"

fun truthy :: "json \<Rightarrow> bool" where
  "truthy JUndef = False"
| "truthy JNull = False"
| "truthy (JBool b) = b"
| "truthy (JNum n) = (n \<noteq> 0)"
| "truthy (JStr s) = (s \<noteq> [])"
| "truthy (JArr xs) = True"
| "truthy (JObj kvs) = True"

text \<open>\<^verbatim>\<open>a || b\<close>\<close>

definition js_or :: "json \<Rightarrow> json \<Rightarrow> json" where
  "js_or a b = (if truthy a then a else b)"

text \<open>\<^verbatim>\<open>typeof v === 'object'\<close>, which holds of \<^verbatim>\<open>null\<close> and of arrays too.\<close>

fun typeof_object :: "json \<Rightarrow> bool" where
  "typeof_object JNull = True"
| "typeof_object (JArr xs) = True"
| "typeof_object (JObj kvs) = True"
| "typeof_object v = False"

fun typeof_string :: "json \<Rightarrow> bool" where
  "typeof_string (JStr s) = True"
| "typeof_string v = False"

fun typeof_number :: "json \<Rightarrow> bool" where
  "typeof_number (JNum n) = True"
| "typeof_number v = False"

text \<open>
  \<^verbatim>\<open>v.k\<close> for the property names this program reads (none of them is a member of a
  prototype of strings, arrays or plain objects). On \<^verbatim>\<open>null\<close> and \<^verbatim>\<open>undefined\<close> the read
  throws a TypeError: the callers test \<open>nullish\<close> first, where the source can reach it.
\<close>

fun get_prop :: "json \<Rightarrow> jsstr \<Rightarrow> json" where
  "get_prop (JObj kvs) k = (case map_of kvs k of Some v \<Rightarrow> v | None \<Rightarrow> JUndef)"
| "get_prop v k = JUndef"

fun nullish :: "json \<Rightarrow> bool" where
  "nullish JUndef = True"
| "nullish JNull = True"
| "nullish v = False"

text \<open>\<^verbatim>\<open>v?.k\<close>\<close>

definition opt_prop :: "json \<Rightarrow> jsstr \<Rightarrow> json" where
  "opt_prop v k = (if nullish v then JUndef else get_prop v k)"

text \<open>The object has a property of its own under the key.\<close>

definition has_own :: "(jsstr \<times> json) list \<Rightarrow> jsstr \<Rightarrow> bool" where
  "has_own kvs k \<longleftrightarrow> map_of kvs k \<noteq> None"

subsection \<open>Strings\<close>

text \<open>White space and line terminators, as \<^verbatim>\<open>String.prototype.trim\<close> and \<^verbatim>\<open>\s\<close> take them.\<close>

definition is_space :: "16 word \<Rightarrow> bool" where
  "is_space c \<longleftrightarrow>
     c = 0x20 \<or> (0x09 \<le> c \<and> c \<le> 0x0D) \<or> c = 0xA0 \<or> c = 0x1680 \<or>
     (0x2000 \<le> c \<and> c \<le> 0x200A) \<or> c = 0x2028 \<or> c = 0x2029 \<or> c = 0x202F \<or>
     c = 0x205F \<or> c = 0x3000 \<or> c = 0xFEFF"

definition trim :: "jsstr \<Rightarrow> jsstr" where
  "trim s = rev (dropWhile is_space (rev (dropWhile is_space s)))"

text \<open>\<^verbatim>\<open>s.split(sep)\<close> for a separator of one code unit.\<close>

fun split_on :: "16 word \<Rightarrow> jsstr \<Rightarrow> jsstr list" where
  "split_on sep [] = [[]]"
| "split_on sep (c # cs) =
     (if c = sep then [] # split_on sep cs
      else (case split_on sep cs of [] \<Rightarrow> [[c]] | p # ps \<Rightarrow> (c # p) # ps))"

definition starts_with :: "jsstr \<Rightarrow> jsstr \<Rightarrow> bool" where
  "starts_with s p \<longleftrightarrow> take (length p) s = p"

text \<open>\<^verbatim>\<open>s.includes(p)\<close>\<close>

fun js_includes :: "jsstr \<Rightarrow> jsstr \<Rightarrow> bool" where
  "js_includes [] p = (p = [])"
| "js_includes (c # cs) p = (starts_with (c # cs) p \<or> js_includes cs p)"

text \<open>The decimal digits of a natural number, and \<^verbatim>\<open>xs.join(',')\<close> for strings.\<close>

function digits :: "nat \<Rightarrow> jsstr" where
  "digits n = (if n < 10 then [of_nat (48 + n)] else digits (n div 10) @ [of_nat (48 + n mod 10)])"
  by pat_completeness auto
termination
  by (relation "measure id") auto

definition join_comma :: "jsstr list \<Rightarrow> jsstr" where
  "join_comma xs = concat (case xs of [] \<Rightarrow> [] | y # ys \<Rightarrow> y # map ((#) 0x2C) ys)"

subsection \<open>Numbers\<close>

text \<open>
  What arithmetic gives: an integer among the doubles, an infinity, or \<^verbatim>\<open>NaN\<close>. The sum
  or product of two doubles is the exact one rounded to the nearest double, to the even
  significand in a tie, and to an infinity from \<open>2 ^ 1024 - 2 ^ 970\<close> on. A double keeps 53
  bits: \<open>dropped_bits m\<close> is the number of low bits of \<open>m\<close> that do not fit.
\<close>

datatype number =
    Finite int
  | PosInfinity
  | NegInfinity
  | NaN

function dropped_bits :: "nat \<Rightarrow> nat" where
  "dropped_bits m = (if m < 2 ^ 53 then 0 else Suc (dropped_bits (m div 2)))"
  by pat_completeness auto
termination
  by (relation "measure id") auto

definition round_double :: "int \<Rightarrow> number" where
  "round_double n =
     (let m = nat \<bar>n\<bar>;
          e = dropped_bits m;
          q = m div 2 ^ e;
          r = m mod 2 ^ e;
          rounded = (if 2 * r > 2 ^ e \<or> (2 * r = 2 ^ e \<and> odd q) then q + 1 else q) * 2 ^ e
      in if rounded \<ge> 2 ^ 1024 then (if n < 0 then NegInfinity else PosInfinity)
         else Finite (if n < 0 then - int rounded else int rounded))"

text \<open>\<^verbatim>\<open>x * 1000\<close> and \<^verbatim>\<open>a + x\<close> for an integer \<open>a\<close>.\<close>

fun js_times_1000 :: "number \<Rightarrow> number" where
  "js_times_1000 (Finite n) = round_double (n * 1000)"
| "js_times_1000 x = x"

fun js_plus :: "int \<Rightarrow> number \<Rightarrow> number" where
  "js_plus a (Finite n) = round_double (a + n)"
| "js_plus a x = x"

text \<open>\<^verbatim>\<open>x > y\<close>, which is false as soon as one side is \<^verbatim>\<open>NaN\<close>.\<close>

fun js_gt :: "number \<Rightarrow> number \<Rightarrow> bool" where
  "js_gt (Finite a) (Finite b) \<longleftrightarrow> a > b"
| "js_gt (Finite a) NegInfinity \<longleftrightarrow> True"
| "js_gt PosInfinity (Finite b) \<longleftrightarrow> True"
| "js_gt PosInfinity NegInfinity \<longleftrightarrow> True"
| "js_gt x y \<longleftrightarrow> False"

section \<open>Configuration\<close>

text \<open>
  The constants the program reads from \<^verbatim>\<open>process.env\<close> when it is loaded. They are
  strings (\<^verbatim>\<open>process.env.x || ''\<close>) and the three flags are booleans
  (\<^verbatim>\<open>=== 'true' || === '1'\<close>).
\<close>

record config =
  USERNAME :: jsstr
  PASSWORD :: jsstr
  CLIENT_ID :: jsstr
  CLIENT_SECRET :: jsstr
  OWNER :: jsstr
  REPO :: jsstr
  HEAD_RAW :: jsstr
  BASE_RAW :: jsstr
  ASSIGNEES :: jsstr
  TESTERS :: jsstr
  LABELS_ENV :: jsstr
  AUTO_REVIEW :: bool
  AUTO_TEST :: bool
  AUTO_MERGE :: bool
  PROJECT_NAME :: jsstr

definition MAX_LOGS :: nat where
  "MAX_LOGS = 1000"

definition SCOPE :: jsstr where
  "SCOPE = str ''user_info pull_requests enterprises''"

subsection \<open>formatBranchName\<close>

text \<open>
  The test \<^verbatim>\<open>/^branch\s*\([^)]+\)$/i\<close>. Without the \<^verbatim>\<open>u\<close> flag, \<^verbatim>\<open>i\<close> lets a pattern letter
  match its two ASCII cases only. \<^verbatim>\<open>\s*\<close> is followed by an opening parenthesis, which is
  no white space, and \<^verbatim>\<open>[^)]+\<close> by a closing one: the match is deterministic.
\<close>

definition to_lower :: "16 word \<Rightarrow> 16 word" where
  "to_lower c = (if 0x41 \<le> c \<and> c \<le> 0x5A then c + 0x20 else c)"

definition is_branch_format :: "jsstr \<Rightarrow> bool" where
  "is_branch_format s \<longleftrightarrow>
     map to_lower (take 6 s) = str ''branch'' \<and>
     (case dropWhile is_space (drop 6 s) of
        [] \<Rightarrow> False
      | c # rest \<Rightarrow>
          c = 0x28 \<and> rest \<noteq> [] \<and> last rest = 0x29 \<and>
          butlast rest \<noteq> [] \<and> 0x29 \<notin> set (butlast rest))"

text \<open>
  \<^verbatim>\<open>formatBranchName\<close> is applied to \<^verbatim>\<open>HEAD_RAW\<close> and \<^verbatim>\<open>BASE_RAW\<close>, which are strings; the
  empty string is falsy and comes back as it is.
\<close>

definition formatBranchName :: "jsstr \<Rightarrow> jsstr" where
  "formatBranchName branchName =
     (if branchName = [] then branchName
      else let trimmed = trim branchName in
        if is_branch_format trimmed then trimmed
        else str ''branch ('' @ trimmed @ str '')'')"

definition HEAD :: "config \<Rightarrow> jsstr" where
  "HEAD cfg = formatBranchName (HEAD_RAW cfg)"

definition BASE :: "config \<Rightarrow> jsstr" where
  "BASE cfg = formatBranchName (BASE_RAW cfg)"

text \<open>\<^verbatim>\<open>REPO.replace(/[^a-zA-Z0-9_-]/g, '-')\<close>\<close>

definition is_alnum :: "16 word \<Rightarrow> bool" where
  "is_alnum c \<longleftrightarrow> (0x61 \<le> c \<and> c \<le> 0x7A) \<or> (0x41 \<le> c \<and> c \<le> 0x5A) \<or> (0x30 \<le> c \<and> c \<le> 0x39)"

definition REPO_NAME :: "config \<Rightarrow> jsstr" where
  "REPO_NAME cfg = map (\<lambda>c. if is_alnum c \<or> c = 0x5F \<or> c = 0x2D then c else 0x2D) (REPO cfg)"

section \<open>The process and the world around it\<close>

text \<open>
  The mutable variables of the module (\<^verbatim>\<open>operationLogs\<close>, \<^verbatim>\<open>cachedAccessToken\<close>,
  \<^verbatim>\<open>tokenExpiresAt\<close>), the server object's \<^verbatim>\<open>initialized\<close> field and the pending exit
  timer of \<^verbatim>\<open>shutdown\<close>. \<open>ticks\<close> counts the interactions with the outside so far (clock
  readings and HTTP exchanges) and \<open>sent\<close> lists the HTTP requests written so far, oldest
  first; both are there to say what the program does, the program does not read them.
\<close>

record log_entry =
  log_id :: int
  log_method :: json
  log_params :: json
  log_result :: json
  log_error :: json
  created_at :: jsstr

record http_request =
  req_method :: jsstr
  req_path :: jsstr
  req_body :: json

record state =
  operationLogs :: "log_entry list"
  cachedAccessToken :: json
  tokenExpiresAt :: number
  initialized :: bool
  exit_timer :: bool
  ticks :: nat
  sent :: "http_request list"

text \<open>
  What \<^verbatim>\<open>https.request\<close> brings back: the request's \<^verbatim>\<open>error\<close> event with its message,
  or a response with its status code, headers and data.
\<close>

datatype http_outcome =
    NetError jsstr
  | HttpReply int json jsstr

text \<open>
  The outside of the program: the clock, gitee.com, and the parts of the language
  runtime that are taken as given (\<^verbatim>\<open>JSON.parse\<close> with the message of its SyntaxError on
  the left, \<^verbatim>\<open>JSON.stringify\<close> with and without indentation, \<^verbatim>\<open>Date.prototype.toISOString\<close>,
  the conversion of a string to a number, and the decimal form of a number beyond the
  safe integers, which rounds the digits and turns to the exponent notation). The
  \<open>n\<close>-th interaction reads \<open>date_now w n\<close> or receives \<open>reply w n request\<close>.
  \<open>foreign_member\<close> says which other names the server object answers to
  (\<^verbatim>\<open>handleRequest\<close>, \<^verbatim>\<open>start\<close>, \<^verbatim>\<open>constructor\<close> and the members of \<^verbatim>\<open>Object.prototype\<close>) and
  \<open>foreign_call\<close> what calling one of them through \<^verbatim>\<open>tools/call\<close> does: it throws an error
  with a message, or returns a value.
\<close>

record world =
  date_now :: "nat \<Rightarrow> int"
  reply :: "nat \<Rightarrow> http_request \<Rightarrow> http_outcome"
  json_parse :: "jsstr \<Rightarrow> jsstr + json"
  json_stringify :: "json \<Rightarrow> json"
  json_pretty :: "json \<Rightarrow> json"
  iso_string :: "int \<Rightarrow> jsstr"
  string_to_number :: "jsstr \<Rightarrow> number"
  number_to_string :: "int \<Rightarrow> jsstr"
  foreign_member :: "jsstr \<Rightarrow> bool"
  foreign_call :: "jsstr \<Rightarrow> json \<Rightarrow> state \<Rightarrow> (jsstr + json) \<times> state"

subsection \<open>Conversions\<close>

text \<open>
  \<^verbatim>\<open>String(v)\<close>, which a template literal and a computed property key apply. A safe
  integer is written with its decimal digits. An array joins the strings of its
  elements, \<^verbatim>\<open>null\<close> and \<^verbatim>\<open>undefined\<close> counting as empty. A plain object gives
  \<^verbatim>\<open>[object Object]\<close> through \<^verbatim>\<open>Object.prototype.toString\<close>, unless it has a property of its
  own named \<^verbatim>\<open>toString\<close>: a value from \<^verbatim>\<open>JSON.parse\<close> is no function, \<^verbatim>\<open>valueOf\<close> gives no
  primitive value either, and the conversion throws a TypeError (\<open>None\<close>).
\<close>

definition number_string :: "world \<Rightarrow> int \<Rightarrow> jsstr" where
  "number_string w n =
     (if \<bar>n\<bar> < 2 ^ 53 then (if n < 0 then 0x2D # digits (nat (- n)) else digits (nat n))
      else number_to_string w n)"

fun to_string :: "world \<Rightarrow> json \<Rightarrow> jsstr option"
  and to_strings :: "world \<Rightarrow> json list \<Rightarrow> jsstr list option" where
  "to_string w JUndef = Some (str ''undefined'')"
| "to_string w JNull = Some (str ''null'')"
| "to_string w (JBool b) = Some (if b then str ''true'' else str ''false'')"
| "to_string w (JNum n) = Some (number_string w n)"
| "to_string w (JStr s) = Some s"
| "to_string w (JArr xs) = map_option join_comma (to_strings w xs)"
| "to_string w (JObj kvs) = (if has_own kvs (str ''toString'') then None else Some (str ''[object Object]''))"
| "to_strings w [] = Some []"
| "to_strings w (x # xs) =
     (case (if nullish x then Some [] else to_string w x) of
        None \<Rightarrow> None
      | Some s \<Rightarrow> map_option ((#) s) (to_strings w xs))"

text \<open>The messages of V8's TypeErrors and RangeError (Node 16 and later).\<close>

definition cannot_convert :: jsstr where
  "cannot_convert = str ''Cannot convert object to primitive value''"

definition cannot_read :: "json \<Rightarrow> jsstr \<Rightarrow> jsstr" where
  "cannot_read v k =
     str ''Cannot read properties of '' @ (if v = JNull then str ''null'' else str ''undefined'') @
     str '' (reading '' @ [0x27] @ k @ [0x27] @ str '')''"

definition not_a_function :: "jsstr \<Rightarrow> jsstr" where
  "not_a_function e = e @ str '' is not a function''"

definition invalid_time_value :: jsstr where
  "invalid_time_value = str ''Invalid time value''"

text \<open>
  \<^verbatim>\<open>error.toString()\<close> for a truthy \<^verbatim>\<open>error\<close>: the method of its prototype, unless the value
  is an object with a property of its own named \<^verbatim>\<open>toString\<close>, which is no function. The
  message of the TypeError is on the left.
\<close>

definition error_toString :: "world \<Rightarrow> json \<Rightarrow> jsstr + jsstr" where
  "error_toString w error =
     (case error of
        JObj kvs \<Rightarrow>
          if has_own kvs (str ''toString'') then Inl (not_a_function (str ''error.toString''))
          else Inr (str ''[object Object]'')
      | _ \<Rightarrow> (case to_string w error of None \<Rightarrow> Inl cannot_convert | Some s \<Rightarrow> Inr s))"

text \<open>
  The conversion of a value to a number, as \<^verbatim>\<open>v * 1000\<close> applies it: an object or array
  goes through its string. \<open>None\<close> is the TypeError of that conversion.
\<close>

fun to_number :: "world \<Rightarrow> json \<Rightarrow> number option" where
  "to_number w JUndef = Some NaN"
| "to_number w JNull = Some (Finite 0)"
| "to_number w (JBool b) = Some (Finite (if b then 1 else 0))"
| "to_number w (JNum n) = Some (Finite n)"
| "to_number w (JStr s) = Some (string_to_number w s)"
| "to_number w v = map_option (string_to_number w) (to_string w v)"

text \<open>
  \<^verbatim>\<open>new Date(t).toISOString()\<close>, which throws a RangeError on an invalid date (its message
  is on the left).
\<close>

definition toISOString :: "world \<Rightarrow> number \<Rightarrow> jsstr + jsstr" where
  "toISOString w t =
     (case t of
        Finite ms \<Rightarrow>
          if \<bar>ms\<bar> \<le> 8640000000000000 then Inr (iso_string w ms)
          else Inl invalid_time_value
      | _ \<Rightarrow> Inl invalid_time_value)"

text \<open>
  A value that a \<^verbatim>\<open>catch\<close> block receives: an \<^verbatim>\<open>Error\<close> (or TypeError, RangeError) with its
  message, or the plain object a promise is rejected with. \<open>err_prop\<close> reads \<^verbatim>\<open>err.error\<close>,
  \<^verbatim>\<open>err.message\<close>, \<^verbatim>\<open>err.statusCode\<close>, \<^verbatim>\<open>err.data\<close> and \<^verbatim>\<open>err.rawResponse\<close>.
\<close>

datatype thrown =
    Thrown jsstr
  | Rejected json

fun err_prop :: "thrown \<Rightarrow> jsstr \<Rightarrow> json" where
  "err_prop (Thrown m) k = (if k = str ''message'' then JStr m else JUndef)"
| "err_prop (Rejected obj) k = get_prop obj k"

text \<open>\<^verbatim>\<open>err.error || err.message\<close>\<close>

definition err_text :: "thrown \<Rightarrow> json" where
  "err_text err = js_or (err_prop err (str ''error'')) (err_prop err (str ''message''))"

subsection \<open>logRequest\<close>

text \<open>
  The entry is built first: \<^verbatim>\<open>error ? error.toString() : null\<close> may throw, and then nothing
  is appended. The entry goes to the front of \<^verbatim>\<open>operationLogs\<close>, which is cut back to
  \<^verbatim>\<open>MAX_LOGS\<close> entries. Then the line for the log file is put together: it converts
  \<^verbatim>\<open>method\<close> to a string, which may throw as well. A failure to write the line is caught
  inside \<^verbatim>\<open>logRequest\<close>, and the file is not modelled. The result is the message of the
  TypeError that \<^verbatim>\<open>logRequest\<close> throws, if it throws, and the state it leaves.
\<close>

definition log_error_text :: "world \<Rightarrow> json \<Rightarrow> jsstr + json" where
  "log_error_text w error =
     (if truthy error then
        (case error_toString w error of Inl message \<Rightarrow> Inl message | Inr s \<Rightarrow> Inr (JStr s))
      else Inr JNull)"

definition new_entry :: "world \<Rightarrow> json \<Rightarrow> json \<Rightarrow> json \<Rightarrow> json \<Rightarrow> state \<Rightarrow> log_entry" where
  "new_entry w method params result error_text st = \<lparr>
     log_id = date_now w (ticks st),
     log_method = method,
     log_params = json_stringify w params,
     log_result = (if truthy result then json_stringify w result else JNull),
     log_error = error_text,
     created_at = iso_string w (date_now w (Suc (ticks st))) \<rparr>"

definition logRequest ::
  "world \<Rightarrow> json \<Rightarrow> json \<Rightarrow> json \<Rightarrow> json \<Rightarrow> state \<Rightarrow> jsstr option \<times> state" where
  "logRequest w method params result error st =
     (case log_error_text w error of
        Inl message \<Rightarrow> (Some message, st\<lparr> ticks := Suc (ticks st) \<rparr>)
      | Inr error_text \<Rightarrow>
          let logEntry = new_entry w method params result error_text st;
              logs = logEntry # operationLogs st;
              st1 = st\<lparr> operationLogs := (if length logs > MAX_LOGS then take MAX_LOGS logs else logs),
                        ticks := ticks st + 2 \<rparr>
          in (case to_string w method of
                None \<Rightarrow> (Some cannot_convert, st1)
              | Some m \<Rightarrow> (None, st1)))"

subsection \<open>getAccessToken\<close>

text \<open>
  One call of \<^verbatim>\<open>getAccessToken\<close> is two turns of the event loop. The first reads the
  clock, looks at the cache and, when the cache does not serve, writes the request to
  \<^verbatim>\<open>/oauth/token\<close>; it keeps \<^verbatim>\<open>now\<close>. The second is the response's \<^verbatim>\<open>end\<close> handler (or the
  request's \<^verbatim>\<open>error\<close> handler). The body of the request is the list of the form's fields.
\<close>

datatype token_begin =
    Cached json
  | Exchange int

definition oauth_request :: "config \<Rightarrow> http_request" where
  "oauth_request cfg = \<lparr>
     req_method = str ''POST'',
     req_path = str ''/oauth/token'',
     req_body = JObj [
       (str ''grant_type'', JStr (str ''password'')),
       (str ''username'', JStr (USERNAME cfg)),
       (str ''password'', JStr (PASSWORD cfg)),
       (str ''client_id'', JStr (CLIENT_ID cfg)),
       (str ''client_secret'', JStr (CLIENT_SECRET cfg)),
       (str ''scope'', JStr SCOPE)] \<rparr>"

text \<open>\<^verbatim>\<open>cachedAccessToken && tokenExpiresAt > now + 5 * 60 * 1000\<close>\<close>

definition cache_serves :: "state \<Rightarrow> int \<Rightarrow> bool" where
  "cache_serves st now \<longleftrightarrow>
     truthy (cachedAccessToken st) \<and> js_gt (tokenExpiresAt st) (js_plus now (Finite (5 * 60 * 1000)))"

definition getAccessToken_begin :: "config \<Rightarrow> world \<Rightarrow> state \<Rightarrow> token_begin \<times> state" where
  "getAccessToken_begin cfg w st =
     (let now = date_now w (ticks st);
          st1 = st\<lparr> ticks := Suc (ticks st) \<rparr>
      in if cache_serves st now then (Cached (cachedAccessToken st), st1)
         else (Exchange now, st1\<lparr> sent := sent st1 @ [oauth_request cfg] \<rparr>))"

definition parse_failure :: "int \<Rightarrow> jsstr \<Rightarrow> jsstr \<Rightarrow> thrown" where
  "parse_failure statusCode message responseData =
     Rejected (JObj [
       (str ''statusCode'', JNum statusCode),
       (str ''error'', JStr (str ''Failed to parse response: '' @ message)),
       (str ''rawResponse'', JStr responseData)])"

definition request_failed :: "jsstr \<Rightarrow> thrown" where
  "request_failed message =
     Rejected (JObj [
       (str ''statusCode'', JNum 0),
       (str ''error'', JStr (str ''Request failed: '' @ message))])"

text \<open>
  The \<^verbatim>\<open>end\<close> handler assigns \<^verbatim>\<open>cachedAccessToken\<close> before it computes the expiry: when the
  conversion of \<^verbatim>\<open>expires_in\<close> to a number throws, the \<^verbatim>\<open>catch\<close> of the handler rejects with
  the new token already in the cache and the old expiry.
\<close>

definition getAccessToken_end ::
  "world \<Rightarrow> int \<Rightarrow> http_outcome \<Rightarrow> state \<Rightarrow> (thrown + json) \<times> state" where
  "getAccessToken_end w now outcome st =
     (case outcome of
        NetError message \<Rightarrow> (Inl (request_failed message), st)
      | HttpReply statusCode headers responseData \<Rightarrow>
          (case json_parse w responseData of
             Inl message \<Rightarrow> (Inl (parse_failure statusCode message responseData), st)
           | Inr parsed \<Rightarrow>
               if 200 \<le> statusCode \<and> statusCode < 300 then
                 if nullish parsed then
                   (Inl (parse_failure statusCode (cannot_read parsed (str ''access_token'')) responseData), st)
                 else
                   let st1 = st\<lparr> cachedAccessToken := get_prop parsed (str ''access_token'') \<rparr>;
                       expiresIn = js_or (get_prop parsed (str ''expires_in'')) (JNum 3600)
                   in (case to_number w expiresIn of
                         None \<Rightarrow> (Inl (parse_failure statusCode cannot_convert responseData), st1)
                       | Some seconds \<Rightarrow>
                           (Inr (get_prop parsed (str ''access_token'')),
                            st1\<lparr> tokenExpiresAt := js_plus now (js_times_1000 seconds) \<rparr>))
               else
                 if nullish parsed then
                   (Inl (parse_failure statusCode (cannot_read parsed (str ''error_description'')) responseData), st)
                 else
                   (Inl (Rejected (JObj [
                      (str ''statusCode'', JNum statusCode),
                      (str ''error'', js_or (get_prop parsed (str ''error_description''))
                                       (js_or (get_prop parsed (str ''error'')) (JStr (str ''Unknown error'')))),
                      (str ''data'', parsed)])), st)))"

definition getAccessToken :: "config \<Rightarrow> world \<Rightarrow> state \<Rightarrow> (thrown + json) \<times> state" where
  "getAccessToken cfg w st =
     (case getAccessToken_begin cfg w st of
        (Cached token, st1) \<Rightarrow> (Inr token, st1)
      | (Exchange now, st1) \<Rightarrow>
          getAccessToken_end w now (reply w (ticks st1) (oauth_request cfg))
            (st1\<lparr> ticks := Suc (ticks st1) \<rparr>))"

subsection \<open>makeGiteeRequest\<close>

text \<open>
  The path of the request is a template literal over the token, whose conversion to a
  string may throw. \<^verbatim>\<open>https.request\<close> throws a TypeError for a path with a code unit
  outside \<^verbatim>\<open>\u0021-\u00ff\<close> (Node 10 and later). Both happen inside the executor of the
  promise, before anything is written: the promise is rejected with the TypeError.
\<close>

definition path_ok :: "jsstr \<Rightarrow> bool" where
  "path_ok p \<longleftrightarrow> list_all (\<lambda>c. 0x21 \<le> c \<and> c \<le> 0xFF) p"

definition unescaped_characters :: jsstr where
  "unescaped_characters = str ''Request path contains unescaped characters''"

definition api_path :: "jsstr \<Rightarrow> jsstr \<Rightarrow> jsstr" where
  "api_path path token =
     str ''/api/v5'' @ path @ (if js_includes path (str ''?'') then str ''&'' else str ''?'') @
     str ''access_token='' @ token"

definition api_request :: "world \<Rightarrow> jsstr \<Rightarrow> jsstr \<Rightarrow> json \<Rightarrow> jsstr \<Rightarrow> http_request" where
  "api_request w method path data token = \<lparr>
     req_method = method,
     req_path = api_path path token,
     req_body = (if truthy data then json_stringify w data else JUndef) \<rparr>"

text \<open>
  The value a request resolves with is the object \<^verbatim>\<open>{statusCode, data}\<close> (with
  \<^verbatim>\<open>rawResponse\<close> when the data of a successful response is no JSON).
\<close>

definition on_response :: "world \<Rightarrow> http_outcome \<Rightarrow> thrown + json" where
  "on_response w outcome =
     (case outcome of
        NetError message \<Rightarrow> Inl (request_failed message)
      | HttpReply statusCode headers responseData \<Rightarrow>
          let isSuccess = (200 \<le> statusCode \<and> statusCode < 300) in
          if isSuccess \<and> (responseData = [] \<or> trim responseData = []) then
            Inr (JObj [(str ''statusCode'', JNum statusCode), (str ''data'', JNull)])
          else
            (case json_parse w responseData of
               Inr parsed \<Rightarrow>
                 if isSuccess then
                   Inr (JObj [(str ''statusCode'', JNum statusCode), (str ''data'', parsed)])
                 else if nullish parsed then
                   Inl (Rejected (JObj [
                     (str ''statusCode'', JNum statusCode),
                     (str ''error'', JStr (str ''Failed to parse response: '' @ cannot_read parsed (str ''message''))),
                     (str ''rawResponse'', JStr responseData),
                     (str ''responseHeaders'', headers)]))
                 else
                   Inl (Rejected (JObj [
                     (str ''statusCode'', JNum statusCode),
                     (str ''error'', js_or (get_prop parsed (str ''error_description''))
                                      (js_or (get_prop parsed (str ''message''))
                                        (js_or (get_prop parsed (str ''error'')) (JStr (str ''Unknown error''))))),
                     (str ''data'', parsed)]))
             | Inl message \<Rightarrow>
                 if isSuccess then
                   Inr (JObj [
                     (str ''statusCode'', JNum statusCode),
                     (str ''data'', js_or (JStr responseData) JNull),
                     (str ''rawResponse'', JStr responseData)])
                 else
                   Inl (Rejected (JObj [
                     (str ''statusCode'', JNum statusCode),
                     (str ''error'', JStr (str ''Failed to parse response: '' @ message)),
                     (str ''rawResponse'', JStr responseData),
                     (str ''responseHeaders'', headers)]))))"

definition makeGiteeRequest ::
  "config \<Rightarrow> world \<Rightarrow> jsstr \<Rightarrow> jsstr \<Rightarrow> json \<Rightarrow> json \<Rightarrow> state \<Rightarrow> (thrown + json) \<times> state" where
  "makeGiteeRequest cfg w method path data accessToken st =
     (case (if truthy accessToken then (Inr accessToken, st) else getAccessToken cfg w st) of
        (Inl err, st1) \<Rightarrow> (Inl err, st1)
      | (Inr token, st1) \<Rightarrow>
          (case to_string w token of
             None \<Rightarrow> (Inl (Thrown cannot_convert), st1)
           | Some t \<Rightarrow>
               if \<not> path_ok (api_path path t) then (Inl (Thrown unescaped_characters), st1)
               else
                 let request = api_request w method path data t
                 in (on_response w (reply w (ticks st1) request),
                     st1\<lparr> sent := sent st1 @ [request], ticks := Suc (ticks st1) \<rparr>)))"

subsection \<open>The four calls of the workflow\<close>

definition pulls_path :: "config \<Rightarrow> jsstr" where
  "pulls_path cfg = str ''/repos/'' @ OWNER cfg @ str ''/'' @ REPO cfg @ str ''/pulls''"

definition invalid_pr_number :: thrown where
  "invalid_pr_number = Thrown (str ''Missing or invalid PR number parameter'')"

definition reviewGiteePullRequest ::
  "config \<Rightarrow> world \<Rightarrow> json \<Rightarrow> bool \<Rightarrow> state \<Rightarrow> (thrown + json) \<times> state" where
  "reviewGiteePullRequest cfg w prNumber force st =
     (if \<not> truthy prNumber \<or> \<not> typeof_number prNumber then (Inl invalid_pr_number, st)
      else
        (case to_string w prNumber of
           None \<Rightarrow> (Inl (Thrown cannot_convert), st)
         | Some number \<Rightarrow>
             makeGiteeRequest cfg w (str ''POST'') (pulls_path cfg @ str ''/'' @ number @ str ''/review'')
               (JObj [(str ''force'', JBool force)]) JNull st))"

definition testGiteePullRequest ::
  "config \<Rightarrow> world \<Rightarrow> json \<Rightarrow> bool \<Rightarrow> state \<Rightarrow> (thrown + json) \<times> state" where
  "testGiteePullRequest cfg w prNumber force st =
     (if \<not> truthy prNumber \<or> \<not> typeof_number prNumber then (Inl invalid_pr_number, st)
      else
        (case to_string w prNumber of
           None \<Rightarrow> (Inl (Thrown cannot_convert), st)
         | Some number \<Rightarrow>
             makeGiteeRequest cfg w (str ''POST'') (pulls_path cfg @ str ''/'' @ number @ str ''/test'')
               (JObj [(str ''force'', JBool force)]) JNull st))"

definition mergeGiteePullRequest ::
  "config \<Rightarrow> world \<Rightarrow> json \<Rightarrow> state \<Rightarrow> (thrown + json) \<times> state" where
  "mergeGiteePullRequest cfg w prNumber st =
     (if \<not> truthy prNumber \<or> \<not> typeof_number prNumber then (Inl invalid_pr_number, st)
      else
        (case to_string w prNumber of
           None \<Rightarrow> (Inl (Thrown cannot_convert), st)
         | Some number \<Rightarrow>
             makeGiteeRequest cfg w (str ''PUT'') (pulls_path cfg @ str ''/'' @ number @ str ''/merge'')
               JNull JNull st))"

text \<open>\<^verbatim>\<open>s.split(',').map(s => s.trim()).filter(s => s !== '')\<close>\<close>

definition split_names :: "jsstr \<Rightarrow> jsstr list" where
  "split_names s = filter (\<lambda>x. x \<noteq> []) (map trim (split_on 0x2C s))"

text \<open>
  The loop over \<^verbatim>\<open>labelArray\<close>: the labels pushed to \<^verbatim>\<open>validLabels\<close>, and the labels it
  warns about on the error stream (the first for their length, the second for their
  characters). \<^verbatim>\<open>/^[a-zA-Z0-9_\u4e00-\u9fa5]+$/\<close> asks for one code unit at least, all of
  the class.
\<close>

definition is_label_char :: "16 word \<Rightarrow> bool" where
  "is_label_char c \<longleftrightarrow> is_alnum c \<or> c = 0x5F \<or> (0x4E00 \<le> c \<and> c \<le> 0x9FA5)"

definition label_chars_ok :: "jsstr \<Rightarrow> bool" where
  "label_chars_ok label \<longleftrightarrow> label \<noteq> [] \<and> list_all is_label_char label"

datatype label_warning =
    BadLength jsstr
  | BadCharacters jsstr

fun validate_labels :: "jsstr list \<Rightarrow> jsstr list \<times> label_warning list" where
  "validate_labels [] = ([], [])"
| "validate_labels (label # rest) =
     (let (validLabels, warnings) = validate_labels rest in
      if length label < 2 \<or> length label > 20 then (validLabels, BadLength label # warnings)
      else if \<not> label_chars_ok label then (validLabels, BadCharacters label # warnings)
      else (label # validLabels, warnings))"

definition names_field :: "jsstr \<Rightarrow> jsstr \<Rightarrow> (jsstr \<times> json) list" where
  "names_field key names =
     (if names \<noteq> [] \<and> trim names \<noteq> [] then [(key, JArr (map JStr (split_names names)))] else [])"

definition labels_field :: "config \<Rightarrow> (jsstr \<times> json) list" where
  "labels_field cfg =
     (if LABELS_ENV cfg \<noteq> [] \<and> trim (LABELS_ENV cfg) \<noteq> [] then
        let labelArray = split_names (LABELS_ENV cfg);
            validLabels = fst (validate_labels labelArray)
        in if length validLabels > 0 then [(str ''labels'', JArr (map JStr validLabels))] else []
      else [])"

definition create_body :: "config \<Rightarrow> jsstr \<Rightarrow> json \<Rightarrow> json \<Rightarrow> json" where
  "create_body cfg title body draft =
     JObj ([(str ''title'', JStr (trim title)),
            (str ''head'', JStr (HEAD_RAW cfg)),
            (str ''base'', JStr (BASE_RAW cfg)),
            (str ''body'', js_or body (JStr [])),
            (str ''draft'',
               JBool (if draft = JBool True \<or> draft = JStr (str ''true'') \<or> draft = JStr (str ''false'')
                      then draft = JBool True \<or> draft = JStr (str ''true'') else False))]
           @ names_field (str ''assignees'') (ASSIGNEES cfg)
           @ names_field (str ''testers'') (TESTERS cfg)
           @ labels_field cfg)"

definition invalid_title :: thrown where
  "invalid_title = Thrown (str ''Missing or invalid title parameter'')"

text \<open>
  Before the request is made, the request body is printed with
  \<^verbatim>\<open>requestBody.body.substring(0, 50)\<close>: a truthy \<^verbatim>\<open>body\<close> that is no string has no such
  method, and the TypeError leaves \<^verbatim>\<open>createGiteePullRequest\<close>.
\<close>

definition createGiteePullRequest ::
  "config \<Rightarrow> world \<Rightarrow> json \<Rightarrow> json \<Rightarrow> json \<Rightarrow> state \<Rightarrow> (thrown + json) \<times> state" where
  "createGiteePullRequest cfg w title body draft0 st =
     (let draft = (if draft0 = JUndef then JBool False else draft0) in
      case title of
        JStr t \<Rightarrow>
          if t = [] \<or> trim t = [] then (Inl invalid_title, st)
          else if truthy body \<and> \<not> typeof_string body then
            (Inl (Thrown (not_a_function (str ''requestBody.body.substring''))), st)
          else makeGiteeRequest cfg w (str ''POST'') (pulls_path cfg) (create_body cfg t body draft) JNull st
      | _ \<Rightarrow> (Inl invalid_title, st))"

section \<open>The tools\<close>

subsection \<open>pr\<close>

text \<open>
  The three steps after the creation. Each gives the value of its local variable
  (\<^verbatim>\<open>reviewResult\<close>, \<^verbatim>\<open>testResult\<close>, \<^verbatim>\<open>mergeResult\<close>: \<^verbatim>\<open>null\<close> unless the call resolved) and
  logs its attempt, good or bad, under its own name. The lines a step prints hold
  \<^verbatim>\<open>${result.data.number}\<close>: when that conversion throws in the \<^verbatim>\<open>try\<close> block it throws
  again in the \<^verbatim>\<open>catch\<close> block of the step. What leaves the \<^verbatim>\<open>catch\<close> block of a step, from
  there or from \<^verbatim>\<open>logRequest\<close>, is on the left: it goes to the \<^verbatim>\<open>catch\<close> block of \<^verbatim>\<open>pr\<close>. A
  call of \<^verbatim>\<open>logRequest\<close> with a string for the method and no error throws nothing.
\<close>

definition pr_number :: "json \<Rightarrow> json" where
  "pr_number result = get_prop (get_prop result (str ''data'')) (str ''number'')"

definition has_pr_number :: "json \<Rightarrow> bool" where
  "has_pr_number result \<longleftrightarrow> truthy (get_prop result (str ''data'')) \<and> truthy (pr_number result)"

definition step_caught :: "world \<Rightarrow> jsstr \<Rightarrow> json \<Rightarrow> thrown \<Rightarrow> state \<Rightarrow> (jsstr + json) \<times> state" where
  "step_caught w name logged err st =
     (case logRequest w (JStr name) logged JNull (err_text err) st of
        (Some message, st1) \<Rightarrow> (Inl message, st1)
      | (None, st1) \<Rightarrow> (Inr JNull, st1))"

definition auto_review :: "config \<Rightarrow> world \<Rightarrow> json \<Rightarrow> state \<Rightarrow> (jsstr + json) \<times> state" where
  "auto_review cfg w result st =
     (if AUTO_REVIEW cfg \<and> has_pr_number result then
        let logged = JObj [(str ''prNumber'', pr_number result), (str ''force'', JBool False)] in
        case to_string w (pr_number result) of
          None \<Rightarrow> (Inl cannot_convert, st)
        | Some number \<Rightarrow>
            (case reviewGiteePullRequest cfg w (pr_number result) False st of
               (Inr reviewResult, st1) \<Rightarrow>
                 (Inr reviewResult, snd (logRequest w (JStr (str ''auto_review'')) logged reviewResult JNull st1))
             | (Inl reviewErr, st1) \<Rightarrow> step_caught w (str ''auto_review'') logged reviewErr st1)
      else (Inr JNull, st))"

definition auto_test :: "config \<Rightarrow> world \<Rightarrow> json \<Rightarrow> state \<Rightarrow> (jsstr + json) \<times> state" where
  "auto_test cfg w result st =
     (if AUTO_TEST cfg \<and> has_pr_number result then
        let logged = JObj [(str ''prNumber'', pr_number result), (str ''force'', JBool False)] in
        case to_string w (pr_number result) of
          None \<Rightarrow> (Inl cannot_convert, st)
        | Some number \<Rightarrow>
            (case testGiteePullRequest cfg w (pr_number result) False st of
               (Inr testResult, st1) \<Rightarrow>
                 (Inr testResult, snd (logRequest w (JStr (str ''auto_test'')) logged testResult JNull st1))
             | (Inl testErr, st1) \<Rightarrow> step_caught w (str ''auto_test'') logged testErr st1)
      else (Inr JNull, st))"

definition auto_merge :: "config \<Rightarrow> world \<Rightarrow> json \<Rightarrow> json \<Rightarrow> state \<Rightarrow> (jsstr + json) \<times> state" where
  "auto_merge cfg w result testResult st =
     (if AUTO_MERGE cfg \<and> has_pr_number result then
        let shouldMerge = (\<not> AUTO_TEST cfg \<or> testResult \<noteq> JNull);
            logged = JObj [(str ''prNumber'', pr_number result)]
        in case to_string w (pr_number result) of
             None \<Rightarrow> (Inl cannot_convert, st)
           | Some number \<Rightarrow>
               if shouldMerge then
                 (case mergeGiteePullRequest cfg w (pr_number result) st of
                    (Inr mergeResult, st1) \<Rightarrow>
                      (Inr mergeResult, snd (logRequest w (JStr (str ''auto_merge'')) logged mergeResult JNull st1))
                  | (Inl mergeErr, st1) \<Rightarrow> step_caught w (str ''auto_merge'') logged mergeErr st1)
               else (Inr JNull, st)
      else (Inr JNull, st))"

text \<open>
  The object \<^verbatim>\<open>pr\<close> returns when all went well, with its message. Reading
  \<^verbatim>\<open>result.data.html_url\<close> throws when the data is \<^verbatim>\<open>null\<close>, and the template of the message
  throws when one of its values has no string; the message of the TypeError is on the
  left.
\<close>

definition nl :: jsstr where
  "nl = [0x0A]"

definition bullet :: jsstr where
  "bullet = [0x2022]"

definition pr_message :: "world \<Rightarrow> json \<Rightarrow> json \<Rightarrow> jsstr option" where
  "pr_message w data title =
     (let html_or_url = js_or (get_prop data (str ''html_url'')) (get_prop data (str ''url'')) in
      case (to_string w (js_or (get_prop data (str ''number'')) (JStr (str ''N/A''))),
            to_string w (js_or (get_prop data (str ''title'')) title),
            to_string w (js_or html_or_url (JStr (str ''N/A''))),
            to_string w (js_or html_or_url (JStr (str ''#'')))) of
        (Some number, Some shown_title, Some url, Some link) \<Rightarrow>
          Some ([0xD83C, 0xDF89] @ str '' Pull Request created successfully!'' @ nl @ nl @
                [0xD83D, 0xDCCB] @ str '' **PR Details:**'' @ nl @
                bullet @ str '' Number: #'' @ number @ nl @
                bullet @ str '' Title: '' @ shown_title @ nl @
                bullet @ str '' URL: '' @ url @ nl @ nl @
                [0xD83D, 0xDD17] @ str '' **Direct Link:** [View PR #'' @ number @ str ''](''
                  @ link @ str '')'' @ nl @ nl @
                [0xD83D, 0xDCA1] @ str '' **Next Steps:**'' @ nl @
                bullet @ str '' Review the changes in the PR'' @ nl @
                bullet @ str '' Request reviews from team members if needed'' @ nl @
                bullet @ str '' Monitor CI/CD pipeline status'' @ nl @
                bullet @ str '' Merge when ready (if auto-merge is not enabled)'')
      | _ \<Rightarrow> None)"

definition auto_field ::
  "world \<Rightarrow> jsstr \<Rightarrow> jsstr \<Rightarrow> jsstr \<Rightarrow> json \<Rightarrow> json \<Rightarrow> (jsstr \<times> json) list option" where
  "auto_field w key inner what stepResult data =
     (if truthy stepResult then
        (case to_string w (get_prop data (str ''number'')) of
           None \<Rightarrow> None
         | Some number \<Rightarrow>
             Some [(key, JObj [
               (str ''success'', JBool True),
               (inner, get_prop stepResult (str ''data'')),
               (str ''message'', JStr (what @ str '' completed for PR #'' @ number))])])
      else Some [])"

definition pr_success :: "world \<Rightarrow> json \<Rightarrow> json \<Rightarrow> json \<Rightarrow> json \<Rightarrow> json \<Rightarrow> jsstr + json" where
  "pr_success w title data reviewResult testResult mergeResult =
     (if nullish data then Inl (cannot_read data (str ''html_url''))
      else
        (case (pr_message w data title,
               auto_field w (str ''auto_review'') (str ''review'') (str ''Auto review'') reviewResult data,
               auto_field w (str ''auto_test'') (str ''test'') (str ''Auto test'') testResult data,
               auto_field w (str ''auto_merge'') (str ''merge'') (str ''Auto merge'') mergeResult data) of
           (Some message, Some review, Some test, Some merge) \<Rightarrow>
             Inr (JObj ([(str ''success'', JBool True),
                         (str ''pull_request'', data),
                         (str ''response'', data),
                         (str ''url'', js_or (get_prop data (str ''html_url''))
                                         (js_or (get_prop data (str ''url'')) JNull)),
                         (str ''number'', js_or (get_prop data (str ''number'')) JNull),
                         (str ''message'', JStr message)]
                        @ review @ test @ merge))
         | _ \<Rightarrow> Inl cannot_convert))"

text \<open>
  The \<^verbatim>\<open>catch\<close> of \<^verbatim>\<open>pr\<close>: the error is logged and an object comes back. When \<^verbatim>\<open>logRequest\<close>
  throws there, its TypeError leaves \<^verbatim>\<open>pr\<close>.
\<close>

definition status_suffix :: "world \<Rightarrow> thrown \<Rightarrow> jsstr option" where
  "status_suffix w err =
     (if truthy (err_prop err (str ''statusCode'')) then
        map_option (\<lambda>status. str '' (Status: '' @ status @ str '')'')
          (to_string w (err_prop err (str ''statusCode'')))
      else Some [])"

definition pr_failure :: "world \<Rightarrow> json \<Rightarrow> thrown \<Rightarrow> state \<Rightarrow> (jsstr + json) \<times> state" where
  "pr_failure w logged err st =
     (case logRequest w (JStr (str ''pr'')) logged JNull (err_text err) st of
        (Some message, st1) \<Rightarrow> (Inl message, st1)
      | (None, st1) \<Rightarrow>
          (case (to_string w (err_text err), status_suffix w err) of
             (Some text, Some status) \<Rightarrow>
               (Inr (JObj ([(str ''success'', JBool False),
                            (str ''error'', JStr (str ''Gitee Pull Request creation failed: '' @ text @ status)),
                            (str ''statusCode'', js_or (err_prop err (str ''statusCode'')) JNull),
                            (str ''message'', JStr (str ''Failed to create Pull Request. Error: '' @ text))]
                           @ (if truthy (err_prop err (str ''data''))
                              then [(str ''response'', err_prop err (str ''data''))] else [])
                           @ (if truthy (err_prop err (str ''rawResponse''))
                              then [(str ''rawResponse'', err_prop err (str ''rawResponse''))] else []))),
                st1)
           | _ \<Rightarrow> (Inl cannot_convert, st1)))"

definition pr_logged :: "json \<Rightarrow> json" where
  "pr_logged params = JObj [
     (str ''title'', get_prop params (str ''title'')),
     (str ''body'', get_prop params (str ''body'')),
     (str ''draft'', get_prop params (str ''draft''))]"

text \<open>
  The end of the \<^verbatim>\<open>try\<close> block of \<^verbatim>\<open>pr\<close>: the response is built and returned, or the TypeError
  of building it goes to the \<^verbatim>\<open>catch\<close> block.
\<close>

definition pr_respond ::
  "world \<Rightarrow> json \<Rightarrow> json \<Rightarrow> json \<Rightarrow> json \<Rightarrow> json \<Rightarrow> state \<Rightarrow> (jsstr + json) \<times> state" where
  "pr_respond w params data reviewResult testResult mergeResult st =
     (case pr_success w (get_prop params (str ''title'')) data reviewResult testResult mergeResult of
        Inl message \<Rightarrow> pr_failure w (pr_logged params) (Thrown message) st
      | Inr response \<Rightarrow> (Inr response, st))"

definition pr :: "config \<Rightarrow> world \<Rightarrow> json \<Rightarrow> state \<Rightarrow> (jsstr + json) \<times> state" where
  "pr cfg w params st =
     (let title = get_prop params (str ''title'');
          body = get_prop params (str ''body'');
          draft = get_prop params (str ''draft'')
      in case createGiteePullRequest cfg w title body draft st of
           (Inl err, st1) \<Rightarrow> pr_failure w (pr_logged params) err st1
         | (Inr result, st1) \<Rightarrow>
             let st2 = snd (logRequest w (JStr (str ''pr'')) (pr_logged params) result JNull st1) in
             (case auto_review cfg w result st2 of
                (Inl message, st3) \<Rightarrow> pr_failure w (pr_logged params) (Thrown message) st3
              | (Inr reviewResult, st3) \<Rightarrow>
                  (case auto_test cfg w result st3 of
                     (Inl message, st4) \<Rightarrow> pr_failure w (pr_logged params) (Thrown message) st4
                   | (Inr testResult, st4) \<Rightarrow>
                       (case auto_merge cfg w result testResult st4 of
                          (Inl message, st5) \<Rightarrow> pr_failure w (pr_logged params) (Thrown message) st5
                        | (Inr mergeResult, st5) \<Rightarrow>
                            pr_respond w params (get_prop result (str ''data''))
                              reviewResult testResult mergeResult st5))))"

subsection \<open>token\<close>

text \<open>The \<^verbatim>\<open>catch\<close> of \<^verbatim>\<open>token\<close> logs the error and throws an error of its own.\<close>

definition token_failure :: "world \<Rightarrow> thrown \<Rightarrow> state \<Rightarrow> (jsstr + json) \<times> state" where
  "token_failure w err st =
     (case logRequest w (JStr (str ''token'')) (JObj []) JNull (err_text err) st of
        (Some message, st1) \<Rightarrow> (Inl message, st1)
      | (None, st1) \<Rightarrow>
          (case (to_string w (err_text err), status_suffix w err) of
             (Some text, Some status) \<Rightarrow> (Inl (str ''Failed to get access token: '' @ text @ status), st1)
           | _ \<Rightarrow> (Inl cannot_convert, st1)))"

definition token :: "config \<Rightarrow> world \<Rightarrow> json \<Rightarrow> state \<Rightarrow> (jsstr + json) \<times> state" where
  "token cfg w params st =
     (case getAccessToken cfg w st of
        (Inl err, st1) \<Rightarrow> token_failure w err st1
      | (Inr tok, st1) \<Rightarrow>
          (case tok of
             JStr t \<Rightarrow>
               let st2 = snd (logRequest w (JStr (str ''token'')) (JObj [])
                                (JObj [(str ''success'', JBool True), (str ''token'', JStr (take 10 t @ str ''...''))])
                                JNull st1)
               in (case toISOString w (tokenExpiresAt st2) of
                     Inl message \<Rightarrow> token_failure w (Thrown message) st2
                   | Inr expires \<Rightarrow>
                       (Inr (JObj [
                          (str ''success'', JBool True),
                          (str ''access_token'', tok),
                          (str ''expires_at'', JStr expires),
                          (str ''message'', JStr (str ''Access token retrieved successfully''))]), st2))
           | _ \<Rightarrow>
               token_failure w
                 (Thrown (if nullish tok then cannot_read tok (str ''substring'')
                          else not_a_function (str ''token.substring''))) st1))"

subsection \<open>logs\<close>

definition entry_json :: "log_entry \<Rightarrow> json" where
  "entry_json e = JObj [
     (str ''id'', JNum (log_id e)),
     (str ''method'', log_method e),
     (str ''params'', log_params e),
     (str ''result'', log_result e),
     (str ''error'', log_error e),
     (str ''created_at'', JStr (created_at e))]"

definition with_default :: "json \<Rightarrow> json \<Rightarrow> json" where
  "with_default v d = (if v = JUndef then d else v)"

definition logs :: "json \<Rightarrow> state \<Rightarrow> (jsstr + json) \<times> state" where
  "logs params st =
     (let p = js_or params (JObj []);
          limit = with_default (get_prop p (str ''limit'')) (JNum 50);
          offset = with_default (get_prop p (str ''offset'')) (JNum 0)
      in case limit of
           JNum l \<Rightarrow>
             if l < 1 \<or> l > 1000 then
               (Inl (str ''Invalid limit parameter. Must be a number between 1 and 1000''), st)
             else
               (case offset of
                  JNum off \<Rightarrow>
                    if off < 0 then
                      (Inl (str ''Invalid offset parameter. Must be a non-negative number''), st)
                    else
                      (Inr (JObj [
                         (str ''total'', JNum (int (length (operationLogs st)))),
                         (str ''limit'', limit),
                         (str ''offset'', offset),
                         (str ''logs'', JArr (map entry_json (take (nat l) (drop (nat off) (operationLogs st)))))]), st)
                | _ \<Rightarrow> (Inl (str ''Invalid offset parameter. Must be a non-negative number''), st))
         | _ \<Rightarrow> (Inl (str ''Invalid limit parameter. Must be a number between 1 and 1000''), st))"

section \<open>handleRequest\<close>

text \<open>
  A response is a result envelope or an error envelope, each with the \<^verbatim>\<open>id\<close> it answers.
  Handling a request gives a response or none (\<^verbatim>\<open>null\<close>), unless \<^verbatim>\<open>process.exit\<close> ends the
  process on the spot or a TypeError leaves \<^verbatim>\<open>handleRequest\<close>.
\<close>

datatype response =
    ResultEnvelope json json
  | ErrorEnvelope json int jsstr

datatype outcome =
    Responded "response option"
  | Exited
  | Threw jsstr

subsection \<open>The results of the protocol's own methods\<close>

definition server_name :: jsstr where
  "server_name = str ''gitee-pull-request-mcp-server''"

definition server_version :: jsstr where
  "server_version = str ''1.0.4''"

definition serverInfo :: json where
  "serverInfo = JObj [(str ''name'', JStr server_name), (str ''version'', JStr server_version)]"

definition listChanged :: json where
  "listChanged = JObj [(str ''listChanged'', JBool False)]"

definition capability :: "json \<Rightarrow> jsstr \<Rightarrow> (jsstr \<times> json) list" where
  "capability params key =
     (if truthy (opt_prop (opt_prop params (str ''capabilities'')) key) then [(key, listChanged)] else [])"

definition initialize_result :: "json \<Rightarrow> json" where
  "initialize_result params =
     JObj [
       (str ''protocolVersion'', js_or (opt_prop params (str ''protocolVersion'')) (JStr (str ''2025-06-18''))),
       (str ''capabilities'',
          JObj ([(str ''tools'', listChanged)]
                @ capability params (str ''prompts'')
                @ capability params (str ''resources'')
                @ capability params (str ''logging'')
                @ capability params (str ''roots''))),
       (str ''serverInfo'', serverInfo)]"

definition getToolName :: "config \<Rightarrow> jsstr \<Rightarrow> jsstr" where
  "getToolName cfg baseName = (if REPO_NAME cfg \<noteq> [] then REPO_NAME cfg @ str ''_'' @ baseName else baseName)"

definition getToolDescription :: "config \<Rightarrow> jsstr \<Rightarrow> jsstr" where
  "getToolDescription cfg baseDescription =
     (if PROJECT_NAME cfg \<noteq> [] then str ''['' @ PROJECT_NAME cfg @ str ''] '' @ baseDescription
      else baseDescription)"

definition unlines :: "jsstr list \<Rightarrow> jsstr" where
  "unlines ls = concat (case ls of [] \<Rightarrow> [] | l # rest \<Rightarrow> l # map ((@) nl) rest)"

definition dq :: jsstr where
  "dq = [0x22]"

definition pr_description :: "config \<Rightarrow> jsstr" where
  "pr_description cfg = unlines [
     str ''Create a Pull Request on Gitee for repository '' @ dq @ OWNER cfg @ str ''/'' @ REPO cfg @ dq @ str ''.'',
     [],
     str ''IMPORTANT: '',
     str ''- This tool creates a Pull Request from branch '' @ dq @ HEAD cfg @ dq @ str '' to '' @ dq @ BASE cfg @ dq,
     str ''- The repository is configured via environment variables (owner, repo, head, base)'',
     str ''- Optional reviewers can be configured via assignees and testers environment variables'',
     (if LABELS_ENV cfg \<noteq> [] then str ''- Default labels from environment: '' @ LABELS_ENV cfg else []),
     [],
     str ''USAGE: '',
     str ''Call this tool with the following parameters:'',
     str ''{'',
     str ''  '' @ dq @ str ''title'' @ dq @ str '': '' @ dq @ str ''PR title (required)'' @ dq @ str '','',
     str ''  '' @ dq @ str ''body'' @ dq @ str '': '' @ dq @ str ''PR description (optional)'' @ dq @ str '','',
     str ''  '' @ dq @ str ''draft'' @ dq @ str '': false (optional, default: false)'',
     str ''}'',
     [],
     (if LABELS_ENV cfg \<noteq> []
      then str ''NOTE: Labels will be automatically added from environment variable: '' @ LABELS_ENV cfg else []),
     [],
     str ''NOTE: After creating the PR, the tool will return the PR URL and number. You can share this information with the user.'']"

definition token_description :: jsstr where
  "token_description = unlines [
     str ''Get Gitee access token using OAuth.'',
     [],
     str ''This tool retrieves an access token from Gitee OAuth API using the configured credentials (username, password, client_id, client_secret).'',
     [],
     str ''The token is cached in memory and will be automatically refreshed when needed. You can call this tool manually to get a fresh token.'',
     [],
     str ''NOTE: The token is automatically used when creating Pull Requests, so you typically don'' @ [0x27] @ str ''t need to call this tool manually.'']"

definition property :: "jsstr \<Rightarrow> jsstr \<Rightarrow> jsstr \<Rightarrow> jsstr \<times> json" where
  "property key type description =
     (key, JObj [(str ''type'', JStr type), (str ''description'', JStr description)])"

definition tool :: "config \<Rightarrow> jsstr \<Rightarrow> jsstr \<Rightarrow> (jsstr \<times> json) list \<Rightarrow> json" where
  "tool cfg baseName description schema = JObj [
     (str ''name'', JStr (getToolName cfg baseName)),
     (str ''description'', JStr (getToolDescription cfg description)),
     (str ''inputSchema'', JObj ((str ''type'', JStr (str ''object'')) # schema))]"

definition tools_list_result :: "config \<Rightarrow> json" where
  "tools_list_result cfg = JObj [
     (str ''tools'', JArr [
        tool cfg (str ''pr'') (pr_description cfg) [
          (str ''properties'', JObj [
             property (str ''title'') (str ''string'') (str ''Pull Request title (required)''),
             property (str ''body'') (str ''string'') (str ''Pull Request description/body (optional)''),
             property (str ''draft'') (str ''boolean'') (str ''Whether this is a draft PR (optional, default: false)'')]),
          (str ''required'', JArr [JStr (str ''title'')])],
        tool cfg (str ''token'') token_description [(str ''properties'', JObj [])],
        tool cfg (str ''logs'') (str ''Get operation logs'') [
          (str ''properties'', JObj [
             property (str ''limit'') (str ''number'') (str ''Limit count, default 50''),
             property (str ''offset'') (str ''number'') (str ''Offset, default 0'')])]]),
     (str ''environment'', JObj [
        (str ''REPO_NAME'', JStr (REPO_NAME cfg)),
        (str ''PROJECT_NAME'', JStr (PROJECT_NAME cfg)),
        (str ''owner'', JStr (OWNER cfg)),
        (str ''repo'', JStr (REPO cfg)),
        (str ''head'', JStr (HEAD cfg)),
        (str ''base'', JStr (BASE cfg)),
        (str ''serverInfo'', serverInfo)])]"

definition unsupported :: "jsstr \<Rightarrow> json" where
  "unsupported text = JObj [
     (str ''contents'', JArr [JObj [
        (str ''uri'', JStr (str ''error://unsupported'')),
        (str ''text'', JStr text)]])]"

definition prompts_call_result :: json where
  "prompts_call_result = JObj [
     (str ''messages'', JArr [JObj [
        (str ''role'', JStr (str ''assistant'')),
        (str ''content'', JArr [JObj [
           (str ''type'', JStr (str ''text'')),
           (str ''text'', JStr (str ''Unsupported prompts call''))]])]])]"

subsection \<open>tools/call\<close>

text \<open>
  \<^verbatim>\<open>this[actualMethodName]\<close> finds whatever the server object has under that name: the
  three tools, the fields the constructor sets, and the other members.
\<close>

datatype member =
    ToolPr
  | ToolToken
  | ToolLogs
  | Field json
  | Foreign
  | Absent

definition lookup_member :: "world \<Rightarrow> state \<Rightarrow> jsstr \<Rightarrow> member" where
  "lookup_member w st key =
     (if key = str ''pr'' then ToolPr
      else if key = str ''token'' then ToolToken
      else if key = str ''logs'' then ToolLogs
      else if key = str ''name'' then Field (JStr server_name)
      else if key = str ''version'' then Field (JStr server_version)
      else if key = str ''initialized'' then Field (JBool (initialized st))
      else if foreign_member w key then Foreign
      else Absent)"

definition unknown_tool :: "config \<Rightarrow> jsstr \<Rightarrow> jsstr \<Rightarrow> jsstr" where
  "unknown_tool cfg name actualMethodName =
     str ''Unknown tool: '' @ name @ str ''. PROJECT_NAME='' @ dq @ PROJECT_NAME cfg @ dq @
     str '', actualMethodName='' @ dq @ actualMethodName @ dq @
     str ''. Available methods: pr, token, logs''"

text \<open>The name of the tool without the prefix, or the TypeError of \<^verbatim>\<open>name.startsWith\<close>.\<close>

definition strip_prefix :: "config \<Rightarrow> json \<Rightarrow> jsstr + json" where
  "strip_prefix cfg name =
     (if REPO_NAME cfg \<noteq> [] then
        (case name of
           JStr n \<Rightarrow>
             if starts_with n (REPO_NAME cfg @ str ''_'')
             then Inr (JStr (drop (length (REPO_NAME cfg) + 1) n))
             else Inr name
         | _ \<Rightarrow> Inl (not_a_function (str ''name.startsWith'')))
      else Inr name)"

definition tool_content :: "json \<Rightarrow> json" where
  "tool_content text = JObj [
     (str ''content'', JArr [JObj [(str ''type'', JStr (str ''text'')), (str ''text'', text)]])]"

text \<open>
  The body of the \<^verbatim>\<open>tools/call\<close> branch: the message of the error it throws, or \<^verbatim>\<open>result\<close>.
  The name is converted to a property key, which may throw; when it does not, \<^verbatim>\<open>name\<close>
  has a string as well.
\<close>

definition tools_call :: "config \<Rightarrow> world \<Rightarrow> json \<Rightarrow> state \<Rightarrow> (jsstr + json) \<times> state" where
  "tools_call cfg w params st =
     (let name = get_prop (js_or params (JObj [])) (str ''name'');
          args = get_prop (js_or params (JObj [])) (str ''arguments'')
      in if \<not> truthy name then (Inl (str ''Missing tool name''), st)
         else
           (case strip_prefix cfg name of
              Inl message \<Rightarrow> (Inl message, st)
            | Inr actualMethodName \<Rightarrow>
                (case (to_string w actualMethodName, to_string w name) of
                   (Some key, Some shown_name) \<Rightarrow>
                     (case lookup_member w st key of
                        Absent \<Rightarrow> (Inl (unknown_tool cfg shown_name key), st)
                      | Field v \<Rightarrow>
                          if \<not> truthy v then (Inl (unknown_tool cfg shown_name key), st)
                          else (Inl (not_a_function (str ''this[actualMethodName]'')), st)
                      | Foreign \<Rightarrow>
                          (case foreign_call w key (js_or args (JObj [])) st of
                             (Inl message, st1) \<Rightarrow> (Inl message, st1)
                           | (Inr toolResult, st1) \<Rightarrow> (Inr (tool_content (json_pretty w toolResult)), st1))
                      | ToolPr \<Rightarrow>
                          (case pr cfg w (js_or args (JObj [])) st of
                             (Inl message, st1) \<Rightarrow> (Inl message, st1)
                           | (Inr toolResult, st1) \<Rightarrow>
                               if actualMethodName = JStr (str ''pr'') \<and>
                                  truthy (get_prop toolResult (str ''success''))
                               then (Inr (tool_content (get_prop toolResult (str ''message''))), st1)
                               else (Inr (tool_content (json_pretty w toolResult)), st1))
                      | ToolToken \<Rightarrow>
                          (case token cfg w (js_or args (JObj [])) st of
                             (Inl message, st1) \<Rightarrow> (Inl message, st1)
                           | (Inr toolResult, st1) \<Rightarrow> (Inr (tool_content (json_pretty w toolResult)), st1))
                      | ToolLogs \<Rightarrow>
                          (case logs (js_or args (JObj [])) st of
                             (Inl message, st1) \<Rightarrow> (Inl message, st1)
                           | (Inr toolResult, st1) \<Rightarrow> (Inr (tool_content (json_pretty w toolResult)), st1)))
                 | _ \<Rightarrow> (Inl cannot_convert, st))))"

subsection \<open>The dispatcher\<close>

definition error_code :: "jsstr \<Rightarrow> int" where
  "error_code message =
     (if js_includes message (str ''Server not initialized'') then - 32002
      else if js_includes message (str ''Unknown method'') then - 32601
      else if js_includes message (str ''Unsupported JSON-RPC version'') then - 32600
      else - 32603)"

definition is_notification :: "json \<Rightarrow> bool" where
  "is_notification method \<longleftrightarrow>
     method = JStr (str ''notifications/initialized'') \<or> method = JStr (str ''notifications/exit'')"

definition response_id :: "json \<Rightarrow> json" where
  "response_id rid = (if rid \<noteq> JUndef then rid else JNull)"

text \<open>
  The \<^verbatim>\<open>catch\<close> block, followed by the \<^verbatim>\<open>finally\<close> block, which logs once more when the
  message of the error is the empty string (\<^verbatim>\<open>!error\<close>). \<^verbatim>\<open>result\<close> is still \<^verbatim>\<open>null\<close> whenever
  something is thrown. When \<^verbatim>\<open>logRequest\<close> throws in one of the two blocks (the method of
  the request has no string), that TypeError leaves \<^verbatim>\<open>handleRequest\<close> in place of the
  response.
\<close>

definition caught :: "world \<Rightarrow> json \<Rightarrow> json \<Rightarrow> json \<Rightarrow> jsstr \<Rightarrow> state \<Rightarrow> outcome \<times> state" where
  "caught w method params rid message st =
     (let safeParams = js_or params (JObj []);
          (thrown1, st1) = logRequest w method safeParams JNull (JStr message) st;
          (thrown2, st2) =
            (if message = [] then logRequest w method safeParams JNull JNull st1 else (None, st1))
      in case (thrown2, thrown1) of
           (Some m, _) \<Rightarrow> (Threw m, st2)
         | (None, Some m) \<Rightarrow> (Threw m, st2)
         | (None, None) \<Rightarrow>
             if is_notification method then (Responded None, st2)
             else (Responded (Some (ErrorEnvelope (response_id rid) (error_code message) message)), st2))"

text \<open>The \<^verbatim>\<open>finally\<close> block and the return after a \<^verbatim>\<open>try\<close> block that threw nothing.\<close>

definition completed :: "world \<Rightarrow> jsstr \<Rightarrow> json \<Rightarrow> json \<Rightarrow> json \<Rightarrow> state \<Rightarrow> outcome \<times> state" where
  "completed w method params rid result st =
     (let st1 = snd (logRequest w (JStr method) (js_or params (JObj [])) result JNull st)
      in if is_notification (JStr method) then (Responded None, st1)
         else if method = str ''shutdown'' then (Responded (Some (ResultEnvelope (response_id rid) JNull)), st1)
         else (Responded (Some (ResultEnvelope (response_id rid) result)), st1))"

definition handleRequest :: "config \<Rightarrow> world \<Rightarrow> json \<Rightarrow> state \<Rightarrow> outcome \<times> state" where
  "handleRequest cfg w request st =
     (if \<not> truthy request \<or> \<not> typeof_object request then
        caught w JNull JNull JNull (str ''Invalid request: request must be an object'') st
      else if get_prop request (str ''jsonrpc'') \<noteq> JStr (str ''2.0'') then
        caught w JNull JNull JNull (str ''Unsupported JSON-RPC version. Only 2.0 is supported.'') st
      else
        let method = get_prop request (str ''method'');
            params = get_prop request (str ''params'');
            rid = get_prop request (str ''id'')
        in case method of
             JStr m \<Rightarrow>
               if m = [] then
                 caught w method params rid (str ''Invalid request: method is required and must be a string'') st
               else if m = str ''initialize'' then
                 completed w m params rid (initialize_result params) (st\<lparr> initialized := True \<rparr>)
               else if m = str ''tools/list'' then completed w m params rid (tools_list_result cfg) st
               else if m = str ''prompts/list'' then
                 completed w m params rid (JObj [(str ''prompts'', JArr [])]) st
               else if m = str ''prompts/call'' then completed w m params rid prompts_call_result st
               else if m = str ''resources/list'' then
                 completed w m params rid (JObj [(str ''resources'', JArr [])]) st
               else if m = str ''resources/read'' then
                 completed w m params rid (unsupported (str ''Unsupported resources read'')) st
               else if m = str ''logging/list'' then
                 completed w m params rid (JObj [(str ''logs'', JArr [])]) st
               else if m = str ''logging/read'' then
                 completed w m params rid (unsupported (str ''Unsupported logging read'')) st
               else if m = str ''roots/list'' then
                 completed w m params rid (JObj [(str ''roots'', JArr [])]) st
               else if m = str ''roots/read'' then
                 completed w m params rid (unsupported (str ''Unsupported roots read'')) st
               else if m = str ''tools/call'' then
                 (case tools_call cfg w params st of
                    (Inl message, st1) \<Rightarrow> caught w method params rid message st1
                  | (Inr result, st1) \<Rightarrow> completed w m params rid result st1)
               else if m = str ''ping'' then
                 completed w m params rid (JObj [(str ''pong'', JBool True)])
                   (snd (logRequest w (JStr (str ''ping'')) (JObj [])
                           (JObj [(str ''status'', JStr (str ''pong''))]) JNull st))
               else if m = str ''shutdown'' then
                 completed w m params rid JNull (st\<lparr> exit_timer := True \<rparr>)
               else if m = str ''notifications/initialized'' then
                 completed w m params rid JNull
                   (snd (logRequest w (JStr (str ''notifications/initialized'')) (JObj [])
                           (JObj [(str ''status'', JStr (str ''initialized''))]) JNull st))
               else if m = str ''notifications/exit'' then (Exited, st)
               else caught w method params rid (str ''Unknown method: '' @ m) st
           | _ \<Rightarrow>
               caught w method params rid (str ''Invalid request: method is required and must be a string'') st)"

section \<open>Concrete surroundings\<close>

text \<open>
  A configuration and a world to run the program in: every clock reading is 1000,
  gitee.com answers the token request with a token that lives a day, the creation of a
  pull request with status 201 and the pull request number 7, and every other request
  with status 204 and no data. The parser knows three JSON texts only. No name beyond
  the tools and the fields is a member of the server.
\<close>

definition demo_config :: config where
  "demo_config = \<lparr>
     USERNAME = str ''user'', PASSWORD = str ''secret'', CLIENT_ID = str ''cid'', CLIENT_SECRET = str ''cs'',
     OWNER = str ''acme'', REPO = str ''widgets'', HEAD_RAW = str ''dev'', BASE_RAW = str ''main'',
     ASSIGNEES = [], TESTERS = [], LABELS_ENV = [],
     AUTO_REVIEW = False, AUTO_TEST = True, AUTO_MERGE = True, PROJECT_NAME = [] \<rparr>"

definition labelled_config :: config where
  "labelled_config =
     demo_config\<lparr> LABELS_ENV := str ''bug,performance,x,ab,toolongtoolongtoolongtoolong'' \<rparr>"

definition token_json :: "int \<Rightarrow> json" where
  "token_json lifetime = JObj [(str ''access_token'', JStr (str ''tok'')), (str ''expires_in'', JNum lifetime)]"

definition pr_json :: json where
  "pr_json = JObj [
     (str ''number'', JNum 7),
     (str ''html_url'', JStr (str ''https://gitee.com/acme/widgets/pulls/7''))]"

text \<open>An error body whose message is an object with a property named \<^verbatim>\<open>toString\<close>.\<close>

definition denied_json :: json where
  "denied_json = JObj [(str ''message'', JObj [(str ''toString'', JNum 1)])]"

definition demo_reply :: "nat \<Rightarrow> http_request \<Rightarrow> http_outcome" where
  "demo_reply n request =
     (if req_path request = str ''/oauth/token'' then HttpReply 200 JNull (str ''TOKEN'')
      else if req_path request = str ''/api/v5/repos/acme/widgets/pulls?access_token=tok''
        then HttpReply 201 JNull (str ''PR'')
      else HttpReply 204 JNull [])"

definition demo_parse :: "int \<Rightarrow> jsstr \<Rightarrow> jsstr + json" where
  "demo_parse lifetime s =
     (if s = str ''TOKEN'' then Inr (token_json lifetime)
      else if s = str ''PR'' then Inr pr_json
      else if s = str ''DENIED'' then Inr denied_json
      else Inl (str ''Unexpected token''))"

definition demo_world :: world where
  "demo_world = \<lparr>
     date_now = (\<lambda>n. 1000),
     reply = demo_reply,
     json_parse = demo_parse 86400,
     json_stringify = (\<lambda>v. JStr (str ''json'')),
     json_pretty = (\<lambda>v. JStr (str ''json'')),
     iso_string = (\<lambda>t. str ''date''),
     string_to_number = (\<lambda>s. NaN),
     number_to_string = (\<lambda>n. str ''number''),
     foreign_member = (\<lambda>k. False),
     foreign_call = (\<lambda>k args st. (Inl [], st)) \<rparr>"

text \<open>The same world, where gitee.com answers every request but the token's with status 201 and no data.\<close>

definition silent_reply :: "nat \<Rightarrow> http_request \<Rightarrow> http_outcome" where
  "silent_reply n request =
     (if req_path request = str ''/oauth/token'' then HttpReply 200 JNull (str ''TOKEN'')
      else HttpReply 201 JNull [])"

definition silent_world :: world where
  "silent_world = demo_world\<lparr> reply := silent_reply \<rparr>"

text \<open>The same world, where the token response says \<^verbatim>\<open>"expires_in": 0\<close>.\<close>

definition zero_world :: world where
  "zero_world = demo_world\<lparr> json_parse := demo_parse 0 \<rparr>"

text \<open>
  The same world, where gitee.com refuses the review of the pull request with status 403
  and the error body above; and a configuration with the review and the merge on and the
  test off.
\<close>

definition refusing_reply :: "nat \<Rightarrow> http_request \<Rightarrow> http_outcome" where
  "refusing_reply n request =
     (if req_path request = str ''/api/v5/repos/acme/widgets/pulls/7/review?access_token=tok''
        then HttpReply 403 JNull (str ''DENIED'')
      else demo_reply n request)"

definition refusing_world :: world where
  "refusing_world = demo_world\<lparr> reply := refusing_reply \<rparr>"

definition review_config :: config where
  "review_config = demo_config\<lparr> AUTO_REVIEW := True, AUTO_TEST := False \<rparr>"

text \<open>A call of \<^verbatim>\<open>pr\<close> with a title, and what the creation resolves with in this world.\<close>

definition demo_params :: json where
  "demo_params = JObj [(str ''title'', JStr (str ''Fix''))]"

definition created :: json where
  "created = JObj [(str ''statusCode'', JNum 201), (str ''data'', pr_json)]"

text \<open>The requests that \<^verbatim>\<open>pr\<close> writes in this world for the pull request and for its merge.\<close>

definition create_request :: http_request where
  "create_request = \<lparr>
     req_method = str ''POST'',
     req_path = str ''/api/v5/repos/acme/widgets/pulls?access_token=tok'',
     req_body = JStr (str ''json'') \<rparr>"

definition step_request :: "jsstr \<Rightarrow> jsstr \<Rightarrow> json \<Rightarrow> http_request" where
  "step_request method step body = \<lparr>
     req_method = method,
     req_path = str ''/api/v5/repos/acme/widgets/pulls/7/'' @ step @ str ''?access_token=tok'',
     req_body = body \<rparr>"

text \<open>Requests to run: a call of a tool by its name, without arguments.\<close>

definition call_request :: "jsstr \<Rightarrow> json" where
  "call_request name = JObj [
     (str ''jsonrpc'', JStr (str ''2.0'')),
     (str ''id'', JNum 1),
     (str ''method'', JStr (str ''tools/call'')),
     (str ''params'', JObj [(str ''name'', JStr name), (str ''arguments'', JObj [])])]"

definition initial_state :: state where
  "initial_state = \<lparr>
     operationLogs = [], cachedAccessToken = JNull, tokenExpiresAt = Finite 0,
     initialized = False, exit_timer = False, ticks = 0, sent = [] \<rparr>"

section \<open>Observations\<close>

text \<open>The method of the newest entry of the log.\<close>

definition last_logged :: "state \<Rightarrow> json" where
  "last_logged st = (case operationLogs st of [] \<Rightarrow> JUndef | e # es \<Rightarrow> log_method e)"

text \<open>The title is missing, is no string, or is empty after trimming.\<close>

definition title_missing :: "json \<Rightarrow> bool" where
  "title_missing title = (case title of JStr t \<Rightarrow> trim t = [] | _ \<Rightarrow> True)"

text \<open>
  Some callers enter \<^verbatim>\<open>getAccessToken\<close> one after the other before any response has
  arrived: the first turn of each, in a row.
\<close>

fun begin_calls :: "config \<Rightarrow> world \<Rightarrow> nat \<Rightarrow> state \<Rightarrow> state" where
  "begin_calls cfg w 0 st = st"
| "begin_calls cfg w (Suc n) st = begin_calls cfg w n (snd (getAccessToken_begin cfg w st))"

text \<open>
  The member of the server that the \<^verbatim>\<open>tools/call\<close> branch looks up for given \<^verbatim>\<open>params\<close>,
  when it gets as far as looking one up.
\<close>

definition target :: "config \<Rightarrow> world \<Rightarrow> state \<Rightarrow> json \<Rightarrow> member" where
  "target cfg w st params =
     (let name = get_prop (js_or params (JObj [])) (str ''name'') in
      if \<not> truthy name then Absent
      else (case strip_prefix cfg name of
              Inl message \<Rightarrow> Absent
            | Inr actualMethodName \<Rightarrow>
                (case to_string w actualMethodName of
                   None \<Rightarrow> Absent
                 | Some key \<Rightarrow> lookup_member w st key)))"

text \<open>The envelope passes the two checks that come before the method is read.\<close>

definition valid_envelope :: "json \<Rightarrow> bool" where
  "valid_envelope request \<longleftrightarrow>
     truthy request \<and> typeof_object request \<and> get_prop request (str ''jsonrpc'') = JStr (str ''2.0'')"

definition calls_member :: "config \<Rightarrow> world \<Rightarrow> state \<Rightarrow> json \<Rightarrow> member \<Rightarrow> bool" where
  "calls_member cfg w st request mem \<longleftrightarrow>
     get_prop request (str ''method'') = JStr (str ''tools/call'') \<and>
     target cfg w st (get_prop request (str ''params'')) = mem"

text \<open>
  The requests that have been written from one state to a later one; and all of them
  are POST requests.
\<close>

definition written :: "state \<Rightarrow> state \<Rightarrow> http_request list" where
  "written st st' = drop (length (sent st)) (sent st')"

definition only_posts :: "state \<Rightarrow> state \<Rightarrow> bool" where
  "only_posts st st' \<longleftrightarrow>
     take (length (sent st)) (sent st') = sent st \<and>
     list_all (\<lambda>request. req_method request = str ''POST'') (written st st')"

text \<open>The path that \<^verbatim>\<open>mergeGiteePullRequest\<close> asks for.\<close>

definition merge_path :: "config \<Rightarrow> jsstr \<Rightarrow> jsstr" where
  "merge_path cfg number = pulls_path cfg @ str ''/'' @ number @ str ''/merge''"

section \<open>What the specification says of the labels\<close>

text \<open>
  The rule in the specification's words: a label survives when it is 2 to 20 characters
  long and consists solely of letters, digits, underscore or CJK ideographs. The letters
  counted here are those of the first 256 code points (the Latin letters with and without
  diacritics) and the ideographs those of the blocks CJK Unified Ideographs and CJK
  Unified Ideographs Extension A; a wider reading of the two words admits more labels
  still. The labels of a configured string are its comma-separated pieces, trimmed, the
  empty ones dropped, that survive.
\<close>

definition is_letter :: "16 word \<Rightarrow> bool" where
  "is_letter c \<longleftrightarrow>
     (0x41 \<le> c \<and> c \<le> 0x5A) \<or> (0x61 \<le> c \<and> c \<le> 0x7A) \<or> c = 0xAA \<or> c = 0xB5 \<or> c = 0xBA \<or>
     (0xC0 \<le> c \<and> c \<le> 0xD6) \<or> (0xD8 \<le> c \<and> c \<le> 0xF6) \<or> (0xF8 \<le> c \<and> c \<le> 0xFF)"

definition is_digit :: "16 word \<Rightarrow> bool" where
  "is_digit c \<longleftrightarrow> 0x30 \<le> c \<and> c \<le> 0x39"

definition is_cjk_ideograph :: "16 word \<Rightarrow> bool" where
  "is_cjk_ideograph c \<longleftrightarrow> (0x4E00 \<le> c \<and> c \<le> 0x9FFF) \<or> (0x3400 \<le> c \<and> c \<le> 0x4DBF)"

definition label_survives :: "jsstr \<Rightarrow> bool" where
  "label_survives l \<longleftrightarrow>
     2 \<le> length l \<and> length l \<le> 20 \<and>
     list_all (\<lambda>c. is_letter c \<or> is_digit c \<or> c = 0x5F \<or> is_cjk_ideograph c) l"

definition surviving_labels :: "jsstr \<Rightarrow> jsstr list" where
  "surviving_labels raw =
     filter label_survives (filter (\<lambda>l. l \<noteq> []) (map trim (split_on 0x2C raw)))"

text \<open>
  The narrower rule that the code follows, in words of the same kind: the letters are
  the 52 letters of ASCII, and the ideographs are the code units from U+4E00 to U+9FA5.
\<close>

definition is_narrow_label_char :: "16 word \<Rightarrow> bool" where
  "is_narrow_label_char c \<longleftrightarrow>
     c \<in> set (str ''ABCDEFGHIJKLMNOPQRSTUVWXYZabcdefghijklmnopqrstuvwxyz0123456789_'') \<or>
     (0x4E00 \<le> c \<and> c \<le> 0x9FA5)"

definition label_kept :: "jsstr \<Rightarrow> bool" where
  "label_kept l \<longleftrightarrow> 2 \<le> length l \<and> length l \<le> 20 \<and> list_all is_narrow_label_char l"

definition kept_labels :: "jsstr \<Rightarrow> jsstr list" where
  "kept_labels raw = filter label_kept (filter (\<lambda>l. l \<noteq> []) (map trim (split_on 0x2C raw)))"

definition warning_for :: "jsstr \<Rightarrow> label_warning" where
  "warning_for l = (if length l < 2 \<or> length l > 20 then BadLength l else BadCharacters l)"

section \<open>Branch names\<close>

lemma dropWhile_last_suffix: "dropWhile P xs \<noteq> [] \<Longrightarrow> last (dropWhile P xs) = last xs"
  by (induction xs) (auto split: if_splits)

lemma trim_Nil: "trim [] = []"
  by (simp add: trim_def)

lemma trim_fixed:
  assumes "s \<noteq> []" and "\<not> is_space (hd s)" and "\<not> is_space (last s)"
  shows "trim s = s"
proof -
  have front: "dropWhile is_space s = s"
    using assms(1,2) by (cases s) auto
  obtain a l where r: "rev s = a # l"
    using assms(1) by (cases "rev s") auto
  then have "a = last s"
    by (metis hd_rev list.sel(1))
  with assms(3) have "dropWhile is_space (a # l) = a # l"
    by simp
  with r have "dropWhile is_space (rev s) = rev s"
    by (simp only:)
  with front show ?thesis
    by (simp add: trim_def)
qed

lemma trim_ends:
  assumes "trim s \<noteq> []"
  shows "\<not> is_space (hd (trim s)) \<and> \<not> is_space (last (trim s))"
proof -
  let ?t = "dropWhile is_space s"
  let ?u = "dropWhile is_space (rev ?t)"
  from assms have u: "?u \<noteq> []" by (simp add: trim_def)
  then have t: "?t \<noteq> []" by (metis dropWhile.simps(1) rev.simps(1))
  have "last (trim s) = hd ?u" using u by (simp add: trim_def last_rev)
  moreover have "\<not> is_space (hd ?u)" using u by (rule hd_dropWhile)
  moreover have "hd (trim s) = last ?u" using u by (simp add: trim_def hd_rev)
  moreover have "last ?u = last (rev ?t)" using u by (rule dropWhile_last_suffix)
  moreover have "last (rev ?t) = hd ?t" using t by (simp add: last_rev)
  moreover have "\<not> is_space (hd ?t)" using t by (rule hd_dropWhile)
  ultimately show ?thesis by simp
qed

lemma trim_trim: "trim (trim s) = trim s"
proof (cases "trim s = []")
  case True
  with trim_Nil show ?thesis by metis
next
  case False
  with trim_ends [OF False] show ?thesis by (simp add: trim_fixed)
qed

lemma trim_wrapped: "trim (str ''branch ('' @ t @ str '')'') = str ''branch ('' @ t @ str '')''"
  by (rule trim_fixed) (simp_all add: str_def is_space_def)

lemma wrapped_format:
  "is_branch_format (str ''branch ('' @ t @ str '')'') \<longleftrightarrow> t \<noteq> [] \<and> 0x29 \<notin> set t"
  by (simp add: is_branch_format_def str_def to_lower_def is_space_def)

text \<open>
  C5, as the code has it. \<^verbatim>\<open>formatBranchName\<close> trims its input; a trimmed input that matches
  \<^verbatim>\<open>branch (...)\<close>, in either case of the letters and with a content that is not empty and
  holds no closing parenthesis, comes back trimmed, and any other is wrapped. Formatting
  twice is the same as formatting once exactly when the input is empty, or its trimmed
  form already matches, or its trimmed form is not empty and holds no closing
  parenthesis.
\<close>

theorem formatBranchName_idempotent_iff:
  "formatBranchName x =
     (if x = [] then []
      else if is_branch_format (trim x) then trim x
      else str ''branch ('' @ trim x @ str '')'') \<and>
   (formatBranchName (formatBranchName x) = formatBranchName x \<longleftrightarrow>
      x = [] \<or> is_branch_format (trim x) \<or> (trim x \<noteq> [] \<and> 0x29 \<notin> set (trim x)))"
proof (cases "x = []")
  case True
  then show ?thesis by (simp add: formatBranchName_def)
next
  case nonempty: False
  show ?thesis
  proof (cases "is_branch_format (trim x)")
    case True
    then have "trim x \<noteq> []" by (auto simp: is_branch_format_def str_def)
    with True nonempty show ?thesis
      by (simp add: formatBranchName_def trim_trim Let_def)
  next
    case False
    let ?y = "str ''branch ('' @ trim x @ str '')''"
    have y: "formatBranchName x = ?y" using False nonempty by (simp add: formatBranchName_def)
    have "?y \<noteq> []" by (simp add: str_def)
    then have "formatBranchName ?y = (if is_branch_format ?y then ?y else str ''branch ('' @ ?y @ str '')'')"
      by (simp add: formatBranchName_def trim_wrapped Let_def del: append_assoc)
    moreover have "str ''branch ('' @ ?y @ str '')'' \<noteq> ?y" by (simp add: str_def)
    ultimately show ?thesis using False nonempty y wrapped_format [of "trim x"]
      by (auto simp del: append_assoc)
  qed
qed

theorem formatBranchName_idempotent_witness:
  "trim (str ''dev'') \<noteq> [] \<and> 0x29 \<notin> set (trim (str ''dev'')) \<and>
   formatBranchName (formatBranchName (str ''dev'')) = formatBranchName (str ''dev'')"
proof -
  have "trim (str ''dev'') \<noteq> [] \<and> 0x29 \<notin> set (trim (str ''dev''))"
    by (simp add: str_def trim_def is_space_def)
  with formatBranchName_idempotent_iff [of "str ''dev''"] show ?thesis
    by blast
qed

text \<open>
  C5 as stated fails: a branch name with a closing parenthesis inside is wrapped, and the
  wrapped name does not match the pattern, so that it is wrapped once more.
\<close>

theorem formatBranchName_not_idempotent:
  "formatBranchName (formatBranchName (str ''a)b'')) \<noteq> formatBranchName (str ''a)b'')"
  by (simp add: formatBranchName_def str_def trim_def is_space_def is_branch_format_def to_lower_def)

section \<open>String literals\<close>

lemma unat_of_char: "unat (of_char c :: 16 word) = (of_char c :: nat)"
proof -
  have "(of_char c :: 16 word) = of_nat (of_char c)"
    by (simp add: of_nat_of_char)
  moreover have "(of_char c :: nat) < 2 ^ 16"
  proof -
    have "(of_char c :: nat) < 256" by (rule nat_of_char_less_256)
    also have "(256 :: nat) < 2 ^ 16" by simp
    finally show ?thesis .
  qed
  ultimately show ?thesis
    by (simp add: unat_of_nat take_bit_nat_eq_self)
qed

lemma of_char_word_eq [simp]: "(of_char c :: 16 word) = of_char d \<longleftrightarrow> c = d"
proof
  assume "(of_char c :: 16 word) = of_char d"
  then have "unat (of_char c :: 16 word) = unat (of_char d :: 16 word)" by simp
  then show "c = d" by (simp add: unat_of_char)
qed simp

lemma str_eq_iff [simp]: "str a = str b \<longleftrightarrow> a = b"
  unfolding str_def by (rule inj_map_eq_map) (simp add: inj_def)

lemma str_Nil_iff [simp]: "str a = [] \<longleftrightarrow> a = []" "[] = str a \<longleftrightarrow> a = []"
  by (auto simp: str_def)

lemma str_append: "str a @ str b = str (a @ b)"
  by (simp add: str_def)

section \<open>Labels\<close>

text \<open>
  The class of the pattern, range by range, is the class of the narrower rule, character
  by character.
\<close>

lemma word_range_enum:
  fixes c :: "16 word"
  shows "a \<le> c \<and> c \<le> b \<longleftrightarrow> c \<in> set (map of_nat [unat a..<Suc (unat b)])"
proof
  assume "a \<le> c \<and> c \<le> b"
  then have "unat c \<in> {unat a..<Suc (unat b)}"
    by (auto simp: word_le_nat_alt)
  then have "of_nat (unat c) \<in> (of_nat ` {unat a..<Suc (unat b)} :: 16 word set)"
    by (rule imageI)
  then show "c \<in> set (map of_nat [unat a..<Suc (unat b)])"
    by (simp del: upt_Suc)
next
  assume "c \<in> set (map of_nat [unat a..<Suc (unat b)])"
  then obtain k where k: "c = of_nat k" "unat a \<le> k" "k \<le> unat b"
    by auto
  have "unat b < 2 ^ 16" using unsigned_less [of b] by simp
  with k have "unat c = k"
    by (simp add: unat_of_nat take_bit_nat_eq_self)
  with k show "a \<le> c \<and> c \<le> b"
    by (simp add: word_le_nat_alt)
qed

lemma narrow_iff: "is_label_char c \<longleftrightarrow> is_narrow_label_char c"
  unfolding is_label_char_def is_narrow_label_char_def is_alnum_def
  by (simp add: word_range_enum [of "0x61"] word_range_enum [of "0x41"]
      word_range_enum [of "0x30" _ "0x39"] str_def) blast

lemma label_kept_iff:
  "label_kept l \<longleftrightarrow> 2 \<le> length l \<and> length l \<le> 20 \<and> list_all is_label_char l"
  by (simp add: label_kept_def list_all_iff narrow_iff)

lemma validate_labels_fst: "fst (validate_labels ls) = filter label_kept ls"
  by (induction ls) (auto simp: label_kept_iff label_chars_ok_def split: prod.splits)

lemma validate_labels_snd:
  "snd (validate_labels ls) = map warning_for (filter (\<lambda>l. \<not> label_kept l) ls)"
  by (induction ls) (auto simp: label_kept_iff label_chars_ok_def warning_for_def split: prod.splits)

lemma split_on_no_sep: "sep \<notin> set s \<Longrightarrow> split_on sep s = [s]"
  by (induction s) auto

lemma trim_empty_spaces:
  assumes "trim s = []"
  shows "\<forall>c\<in>set s. is_space c"
proof -
  let ?t = "dropWhile is_space s"
  from assms have "dropWhile is_space (rev ?t) = []" by (simp add: trim_def)
  then have all: "\<forall>c\<in>set ?t. is_space c" by (simp add: dropWhile_eq_Nil_conv)
  have "?t = []"
  proof (rule ccontr)
    assume ne: "?t \<noteq> []"
    then have "\<not> is_space (hd ?t)" by (rule hd_dropWhile)
    moreover have "hd ?t \<in> set ?t" using ne by (rule hd_in_set)
    ultimately show False using all by blast
  qed
  then show ?thesis by (simp add: dropWhile_eq_Nil_conv)
qed

lemma split_names_blank: "trim s = [] \<Longrightarrow> split_names s = []"
proof -
  assume blank: "trim s = []"
  then have "\<forall>c\<in>set s. is_space c" by (rule trim_empty_spaces)
  moreover have "\<not> is_space 0x2C" by (simp add: is_space_def)
  ultimately have "0x2C \<notin> set s" by blast
  then have "split_on 0x2C s = [s]" by (rule split_on_no_sep)
  with blank show ?thesis by (simp add: split_names_def)
qed

lemma labels_field_eq:
  "labels_field cfg =
     (if kept_labels (LABELS_ENV cfg) = [] then []
      else [(str ''labels'', JArr (map JStr (kept_labels (LABELS_ENV cfg))))])"
proof -
  have s: "kept_labels raw = fst (validate_labels (split_names raw))" for raw
    by (simp add: kept_labels_def split_names_def validate_labels_fst)
  show ?thesis
  proof (cases "trim (LABELS_ENV cfg) = []")
    case True
    then have "split_names (LABELS_ENV cfg) = []" by (rule split_names_blank)
    then have "kept_labels (LABELS_ENV cfg) = []" by (simp add: s)
    with True show ?thesis by (simp add: labels_field_def)
  next
    case False
    then have "LABELS_ENV cfg \<noteq> []" using trim_Nil by metis
    with False show ?thesis by (simp add: labels_field_def s Let_def)
  qed
qed

lemma create_body_labels:
  "get_prop (create_body cfg title body draft) (str ''labels'') =
     (if kept_labels (LABELS_ENV cfg) = [] then JUndef
      else JArr (map JStr (kept_labels (LABELS_ENV cfg))))"
  by (simp add: create_body_def labels_field_eq names_field_def str_def)

lemma example_labels:
  "kept_labels (str ''bug,performance,x,ab,toolongtoolongtoolongtoolong'') =
     [str ''bug'', str ''performance'', str ''ab'']"
  by (simp add: kept_labels_def label_kept_iff is_label_char_def is_alnum_def trim_def
      is_space_def str_def)

lemma kept_survives: "label_kept l \<Longrightarrow> label_survives l"
proof -
  have "is_letter c \<or> is_digit c \<or> c = 0x5F \<or> is_cjk_ideograph c" if "is_label_char c" for c
  proof -
    have "c \<le> 0x9FFF" if "c \<le> 0x9FA5"
      using that by (rule order_trans) simp
    with \<open>is_label_char c\<close> show ?thesis
      by (auto simp: is_label_char_def is_alnum_def is_letter_def is_digit_def is_cjk_ideograph_def)
  qed
  then show "label_kept l \<Longrightarrow> label_survives l"
    by (auto simp: label_kept_iff label_survives_def list_all_iff)
qed

text \<open>
  C6, as the code has it. The loop of \<^verbatim>\<open>createGiteePullRequest\<close> keeps exactly the labels of
  2 to 20 code units that consist solely of the 52 letters of ASCII, the ten digits, the
  underscore and the code units from U+4E00 to U+9FA5, and warns once about each of the
  others (for its length first, else for its characters); nothing is thrown for a label.
  The \<^verbatim>\<open>labels\<close> field of the request body holds the labels kept of the configured string
  and is absent when there is none. For
  \<^verbatim>\<open>bug,performance,x,ab,toolongtoolongtoolongtoolong\<close> the labels kept are \<^verbatim>\<open>bug\<close>,
  \<^verbatim>\<open>performance\<close> and \<^verbatim>\<open>ab\<close>. Every label that the code keeps survives in the
  specification's sense.
\<close>

theorem label_preprocessing:
  "fst (validate_labels ls) = filter label_kept ls \<and>
   snd (validate_labels ls) = map warning_for (filter (\<lambda>l. \<not> label_kept l) ls) \<and>
   labels_field cfg =
     (if kept_labels (LABELS_ENV cfg) = [] then []
      else [(str ''labels'', JArr (map JStr (kept_labels (LABELS_ENV cfg))))]) \<and>
   get_prop (create_body cfg title body draft) (str ''labels'') =
     (if kept_labels (LABELS_ENV cfg) = [] then JUndef
      else JArr (map JStr (kept_labels (LABELS_ENV cfg)))) \<and>
   kept_labels (str ''bug,performance,x,ab,toolongtoolongtoolongtoolong'') =
     [str ''bug'', str ''performance'', str ''ab''] \<and>
   (label_kept l \<longrightarrow> label_survives l)"
  using validate_labels_fst validate_labels_snd labels_field_eq create_body_labels example_labels
    kept_survives
  by (intro conjI impI)

theorem label_preprocessing_witness:
  "get_prop (create_body labelled_config (str ''t'') JUndef (JBool False)) (str ''labels'') =
     JArr [JStr (str ''bug''), JStr (str ''performance''), JStr (str ''ab'')] \<and>
   label_kept (str ''ab'') \<and> label_survives (str ''ab'')"
proof -
  have e: "LABELS_ENV labelled_config = str ''bug,performance,x,ab,toolongtoolongtoolongtoolong''"
    by (simp add: labelled_config_def)
  have k: "label_kept (str ''ab'')"
    by (simp add: label_kept_iff is_label_char_def is_alnum_def str_def)
  from label_preprocessing [of "[]" labelled_config "str ''t''" JUndef "JBool False" "str ''ab''"] e k
  show ?thesis
    by simp
qed

text \<open>
  C6 as stated fails for a label with a letter beyond ASCII or an ideograph beyond U+9FA5.
  The label of the two code units U+00E9 (the letter e with an acute accent) and U+0039
  (the digit 9) consists solely of a letter and a digit, and the label of two times
  U+9FA6 solely of ideographs: both survive in the specification's sense, and the code
  drops both for their characters, so that no \<^verbatim>\<open>labels\<close> field is sent.
\<close>

theorem accented_label_dropped:
  "label_survives [0xE9, 0x39] \<and>
   surviving_labels [0xE9, 0x39] = [[0xE9, 0x39]] \<and>
   validate_labels [[0xE9, 0x39]] = ([], [BadCharacters [0xE9, 0x39]]) \<and>
   labels_field (demo_config\<lparr> LABELS_ENV := [0xE9, 0x39] \<rparr>) = [] \<and>
   label_survives [0x9FA6, 0x9FA6] \<and>
   validate_labels [[0x9FA6, 0x9FA6]] = ([], [BadCharacters [0x9FA6, 0x9FA6]])"
  by (simp add: label_survives_def surviving_labels_def is_letter_def is_digit_def is_cjk_ideograph_def
      label_chars_ok_def is_label_char_def is_alnum_def labels_field_def split_names_def trim_def
      is_space_def demo_config_def)

section \<open>The log\<close>

lemma log_error_text_simps [simp]:
  "log_error_text w JNull = Inr JNull"
  "log_error_text w JUndef = Inr JNull"
  "log_error_text w (JStr s) = Inr (if s = [] then JNull else JStr s)"
  by (simp_all add: log_error_text_def error_toString_def)

lemma log_error_text_message: "log_error_text w error = Inl message \<Longrightarrow> message \<noteq> []"
  by (auto simp: log_error_text_def error_toString_def not_a_function_def cannot_convert_def
      split: if_splits json.splits option.splits)

lemma take_MAX_LOGS:
  "(if length xs > MAX_LOGS then take MAX_LOGS xs else xs) = take MAX_LOGS xs"
  by simp

lemma logRequest_string:
  "log_error_text w error = Inr error_text \<Longrightarrow>
   logRequest w (JStr m) params result error st =
     (None, st\<lparr> operationLogs :=
                  take MAX_LOGS (new_entry w (JStr m) params result error_text st # operationLogs st),
                ticks := ticks st + 2 \<rparr>)"
  by (simp add: logRequest_def Let_def)

lemma logRequest_logs:
  "log_error_text w error = Inr error_text \<Longrightarrow>
   operationLogs (snd (logRequest w method params result error st)) =
     take MAX_LOGS (new_entry w method params result error_text st # operationLogs st)"
  by (simp add: logRequest_def Let_def split: option.splits)

lemma new_entry_method [simp]: "log_method (new_entry w m p r e st) = m"
  by (simp add: new_entry_def)

lemma logRequest_frame:
  "cachedAccessToken (snd (logRequest w m p r e st)) = cachedAccessToken st"
  "tokenExpiresAt (snd (logRequest w m p r e st)) = tokenExpiresAt st"
  "initialized (snd (logRequest w m p r e st)) = initialized st"
  "exit_timer (snd (logRequest w m p r e st)) = exit_timer st"
  "sent (snd (logRequest w m p r e st)) = sent st"
  by (simp_all add: logRequest_def Let_def split: sum.splits option.splits)

lemma logRequest_message: "fst (logRequest w m p r e st) = Some message \<Longrightarrow> message \<noteq> []"
  by (auto simp: logRequest_def Let_def cannot_convert_def log_error_text_message
      split: sum.splits option.splits)

lemma last_logged_logRequest:
  "log_error_text w e = Inr t \<Longrightarrow> last_logged (snd (logRequest w m p r e st)) = m"
  by (simp add: last_logged_def logRequest_logs MAX_LOGS_def)

lemma title_missing_create:
  "title_missing title \<Longrightarrow> createGiteePullRequest cfg w title body draft st = (Inl invalid_title, st)"
  by (auto simp: title_missing_def createGiteePullRequest_def trim_Nil split: json.splits)

section \<open>The title\<close>

text \<open>
  C7. When the title is missing, is no string or is empty after trimming, \<^verbatim>\<open>pr\<close> gives
  back the failure object of a validation error (the message of the error thrown by
  \<^verbatim>\<open>createGiteePullRequest\<close>, no status code) and logs it; no request is written, neither
  for a token nor for the pull request, and the token cache is as it was.
\<close>

theorem missing_title:
  assumes "title_missing (get_prop params (str ''title''))"
  shows "pr cfg w params st =
           (Inr (JObj [
              (str ''success'', JBool False),
              (str ''error'', JStr (str ''Gitee Pull Request creation failed: Missing or invalid title parameter'')),
              (str ''statusCode'', JNull),
              (str ''message'', JStr (str ''Failed to create Pull Request. Error: Missing or invalid title parameter''))]),
            snd (logRequest w (JStr (str ''pr'')) (pr_logged params) JNull
                   (JStr (str ''Missing or invalid title parameter'')) st)) \<and>
         operationLogs (snd (pr cfg w params st)) =
           take MAX_LOGS
             (new_entry w (JStr (str ''pr'')) (pr_logged params) JNull
                (JStr (str ''Missing or invalid title parameter'')) st # operationLogs st) \<and>
         sent (snd (pr cfg w params st)) = sent st \<and>
         cachedAccessToken (snd (pr cfg w params st)) = cachedAccessToken st \<and>
         tokenExpiresAt (snd (pr cfg w params st)) = tokenExpiresAt st"
proof -
  have e: "err_text invalid_title = JStr (str ''Missing or invalid title parameter'')"
    by (simp add: err_text_def invalid_title_def js_or_def)
  have s: "status_suffix w invalid_title = Some []"
    by (simp add: status_suffix_def invalid_title_def)
  have d: "err_prop invalid_title (str ''data'') = JUndef"
     "err_prop invalid_title (str ''rawResponse'') = JUndef"
     "err_prop invalid_title (str ''statusCode'') = JUndef"
    by (simp_all add: invalid_title_def)
  have l: "log_error_text w (JStr (str ''Missing or invalid title parameter'')) =
      Inr (JStr (str ''Missing or invalid title parameter''))"
    by simp
  have "pr cfg w params st = pr_failure w (pr_logged params) invalid_title st"
    using assms by (simp add: pr_def title_missing_create)
  then show ?thesis
    by (simp add: pr_failure_def e s d js_or_def logRequest_string [OF l] str_append)
qed

theorem missing_title_witness:
  "title_missing (get_prop (JObj []) (str ''title'')) \<and>
   sent (snd (pr demo_config demo_world (JObj []) initial_state)) = [] \<and>
   fst (pr demo_config demo_world (JObj []) initial_state) =
     Inr (JObj [
       (str ''success'', JBool False),
       (str ''error'', JStr (str ''Gitee Pull Request creation failed: Missing or invalid title parameter'')),
       (str ''statusCode'', JNull),
       (str ''message'', JStr (str ''Failed to create Pull Request. Error: Missing or invalid title parameter''))])"
proof -
  have m: "title_missing (get_prop (JObj []) (str ''title''))"
    by (simp add: title_missing_def)
  from missing_title [OF m, of demo_config demo_world initial_state] m show ?thesis
    by (simp add: initial_state_def logRequest_frame)
qed

section \<open>The token cache\<close>

lemma dropped_bits_safe: "m < 2 ^ 53 \<Longrightarrow> dropped_bits m = 0"
  by simp

lemma round_double_safe: "\<bar>n\<bar> < 2 ^ 53 \<Longrightarrow> round_double n = Finite n"
proof -
  assume small: "\<bar>n\<bar> < 2 ^ 53"
  define m where "m = nat \<bar>n\<bar>"
  from small have m: "m < 2 ^ 53"
    by (simp add: m_def nat_less_iff)
  then have d: "dropped_bits m = 0"
    by (rule dropped_bits_safe)
  have "(2::nat) ^ 53 \<le> 2 ^ 1024"
    by (rule power_increasing) simp_all
  with m have "m < 2 ^ 1024"
    by (rule less_le_trans)
  then have big: "\<not> 2 ^ 1024 \<le> m"
    by simp
  have "round_double n = Finite (if n < 0 then - int m else int m)"
    unfolding round_double_def m_def [symmetric] Let_def d using big by simp
  also have "(if n < 0 then - int m else int m) = n"
    by (simp add: m_def)
  finally show ?thesis .
qed

lemma getAccessToken_cached:
  assumes "cache_serves st (date_now w (ticks st))"
  shows "getAccessToken cfg w st = (Inr (cachedAccessToken st), st\<lparr> ticks := Suc (ticks st) \<rparr>)"
  using assms by (simp add: getAccessToken_def getAccessToken_begin_def Let_def)

lemma getAccessToken_exchange:
  assumes "\<not> cache_serves st (date_now w (ticks st))"
  shows "getAccessToken cfg w st =
           getAccessToken_end w (date_now w (ticks st)) (reply w (Suc (ticks st)) (oauth_request cfg))
             (st\<lparr> sent := sent st @ [oauth_request cfg], ticks := Suc (Suc (ticks st)) \<rparr>)"
  using assms by (simp add: getAccessToken_def getAccessToken_begin_def Let_def)

lemma getAccessToken_end_sent: "sent (snd (getAccessToken_end w now outcome st)) = sent st"
  by (simp add: getAccessToken_end_def Let_def split: http_outcome.splits sum.splits option.splits)

lemma default_lifetime: "round_double 3600000 = Finite 3600000"
  by (simp add: round_double_safe)

text \<open>
  C3 fails on the code where the response names a lifetime of 0 seconds. Let the cache
  not serve, and let the token endpoint answer with a status from 200 to 299 and a JSON
  object whose \<^verbatim>\<open>expires_in\<close> is the number 0. Then \<^verbatim>\<open>getAccessToken\<close> returns the
  \<^verbatim>\<open>access_token\<close> of the response and caches it, and the expiry is not the clock reading
  plus the lifetime returned, which is the clock reading itself: \<^verbatim>\<open>parsed.expires_in || 3600\<close>
  takes the 0 for a missing value, and the expiry is the clock reading plus 3600000
  milliseconds (as a double; the sum itself while it is a safe integer).
\<close>

theorem zero_lifetime:
  assumes "\<not> cache_serves st (date_now w (ticks st))"
    and "reply w (Suc (ticks st)) (oauth_request cfg) = HttpReply status headers body"
    and "200 \<le> status" and "status < 300"
    and "json_parse w body = Inr parsed"
    and "get_prop parsed (str ''expires_in'') = JNum 0"
  shows "fst (getAccessToken cfg w st) = Inr (get_prop parsed (str ''access_token'')) \<and>
         cachedAccessToken (snd (getAccessToken cfg w st)) = get_prop parsed (str ''access_token'') \<and>
         tokenExpiresAt (snd (getAccessToken cfg w st)) = round_double (date_now w (ticks st) + 3600000) \<and>
         (\<bar>date_now w (ticks st) + 3600000\<bar> < 2 ^ 53 \<longrightarrow>
            tokenExpiresAt (snd (getAccessToken cfg w st)) = Finite (date_now w (ticks st) + 3600000))"
proof -
  from assms(6) have p: "\<not> nullish parsed"
    by (cases parsed) auto
  have "getAccessToken cfg w st =
      (Inr (get_prop parsed (str ''access_token'')),
       st\<lparr> sent := sent st @ [oauth_request cfg], ticks := Suc (Suc (ticks st)),
           cachedAccessToken := get_prop parsed (str ''access_token''),
           tokenExpiresAt := round_double (date_now w (ticks st) + 3600000) \<rparr>)"
    using assms(2-6) p
    by (simp add: getAccessToken_exchange [OF assms(1)] getAccessToken_end_def Let_def js_or_def
        default_lifetime)
  then show ?thesis
    by (simp add: round_double_safe)
qed

theorem zero_lifetime_witness:
  "get_prop (token_json 0) (str ''expires_in'') = JNum 0 \<and>
   date_now zero_world (ticks initial_state) = 1000 \<and>
   fst (getAccessToken demo_config zero_world initial_state) = Inr (JStr (str ''tok'')) \<and>
   tokenExpiresAt (snd (getAccessToken demo_config zero_world initial_state)) = Finite 3601000 \<and>
   cache_serves (snd (getAccessToken demo_config zero_world initial_state)) 1000"
proof -
  have c: "\<not> cache_serves initial_state (date_now zero_world (ticks initial_state))"
    by (simp add: cache_serves_def initial_state_def)
  have r: "reply zero_world (Suc (ticks initial_state)) (oauth_request demo_config) =
      HttpReply 200 JNull (str ''TOKEN'')"
    by (simp add: zero_world_def demo_world_def demo_reply_def oauth_request_def)
  have p: "json_parse zero_world (str ''TOKEN'') = Inr (token_json 0)"
    by (simp add: zero_world_def demo_world_def demo_parse_def)
  have e: "get_prop (token_json 0) (str ''expires_in'') = JNum 0"
    "get_prop (token_json 0) (str ''access_token'') = JStr (str ''tok'')"
    by (simp_all add: token_json_def)
  have d: "date_now zero_world (ticks initial_state) = 1000"
    by (simp add: zero_world_def demo_world_def)
  from zero_lifetime [OF c r _ _ p e(1)] e d show ?thesis
    by (simp add: cache_serves_def round_double_safe)
qed

section \<open>Callers at the same time\<close>

lemma begin_keeps_cache:
  "cachedAccessToken (snd (getAccessToken_begin cfg w st)) = cachedAccessToken st"
  "tokenExpiresAt (snd (getAccessToken_begin cfg w st)) = tokenExpiresAt st"
  by (simp_all add: getAccessToken_begin_def Let_def)

lemma cache_serves_cong:
  "cachedAccessToken st' = cachedAccessToken st \<Longrightarrow> tokenExpiresAt st' = tokenExpiresAt st \<Longrightarrow>
   cache_serves st' now = cache_serves st now"
  by (simp add: cache_serves_def)

lemma begin_sends:
  "\<not> cache_serves st (date_now w (ticks st)) \<Longrightarrow>
   sent (snd (getAccessToken_begin cfg w st)) = sent st @ [oauth_request cfg]"
  by (simp add: getAccessToken_begin_def Let_def)

text \<open>
  C4, as the code has it. There is no single flight: the first turn of
  \<^verbatim>\<open>getAccessToken\<close> leaves the cache as it is, so that when the cache serves at no clock
  reading (no token, or an expired one), each of \<open>n\<close> callers that enter before a response
  has arrived writes a request of its own to the token endpoint.
\<close>

theorem no_single_flight:
  assumes "\<forall>k. \<not> cache_serves st (date_now w k)"
  shows "sent (begin_calls cfg w n st) = sent st @ replicate n (oauth_request cfg) \<and>
         cachedAccessToken (begin_calls cfg w n st) = cachedAccessToken st \<and>
         tokenExpiresAt (begin_calls cfg w n st) = tokenExpiresAt st"
  using assms
proof (induction n arbitrary: st)
  case 0
  then show ?case by simp
next
  case (Suc n)
  let ?st = "snd (getAccessToken_begin cfg w st)"
  have "\<forall>k. \<not> cache_serves ?st (date_now w k)"
    using Suc.prems by (simp add: cache_serves_cong [OF begin_keeps_cache])
  from Suc.IH [OF this] Suc.prems show ?case
    by (simp add: begin_sends begin_keeps_cache replicate_app_Cons_same)
qed

theorem no_single_flight_witness:
  "(\<forall>k. \<not> cache_serves initial_state (date_now demo_world k)) \<and>
   sent (begin_calls demo_config demo_world 3 initial_state) = replicate 3 (oauth_request demo_config)"
proof -
  have c: "\<forall>k. \<not> cache_serves initial_state (date_now demo_world k)"
    by (simp add: cache_serves_def initial_state_def)
  have "sent initial_state = []" by (simp add: initial_state_def)
  with no_single_flight [OF c, of demo_config 3] c show ?thesis by simp
qed

text \<open>
  C4 as stated fails: two callers that find the cache empty before any response has
  arrived write two requests to the token endpoint, not one.
\<close>

theorem two_exchanges:
  "sent (begin_calls demo_config demo_world 2 initial_state) =
     [oauth_request demo_config, oauth_request demo_config]"
  by (simp add: numeral_2_eq_2 getAccessToken_begin_def cache_serves_def initial_state_def Let_def)

section \<open>Evaluation in the concrete surroundings\<close>

lemma str_append2: "str a @ str b @ x = str (a @ b) @ x"
  by (simp add: str_def)

lemma length_str [simp]: "length (str a) = length a"
  by (simp add: str_def)

lemma take_str: "take n (str a) = str (take n a)"
  by (simp add: str_def take_map)

lemma starts_with_str: "starts_with (str a) (str p) \<longleftrightarrow> take (length p) a = p"
  by (simp add: starts_with_def take_str)

lemma js_includes_str:
  "js_includes (str []) (str p) \<longleftrightarrow> p = []"
  "js_includes (str (c # cs)) (str p) \<longleftrightarrow> take (length p) (c # cs) = p \<or> js_includes (str cs) (str p)"
proof -
  show "js_includes (str []) (str p) \<longleftrightarrow> p = []" by (simp add: str_def)
  have "js_includes (str (c # cs)) (str p) \<longleftrightarrow> starts_with (str (c # cs)) (str p) \<or> js_includes (str cs) (str p)"
    by (simp add: str_def)
  then show "js_includes (str (c # cs)) (str p) \<longleftrightarrow> take (length p) (c # cs) = p \<or> js_includes (str cs) (str p)"
    by (simp only: starts_with_str)
qed

lemma trim_Fix: "trim (str ''Fix'') = str ''Fix''"
  by (rule trim_fixed) (simp_all add: str_def is_space_def)

lemma trim_PR: "trim (str ''PR'') = str ''PR''"
  by (rule trim_fixed) (simp_all add: str_def is_space_def)

lemma trim_DENIED: "trim (str ''DENIED'') = str ''DENIED''"
  by (rule trim_fixed) (simp_all add: str_def is_space_def)

lemma digits_7: "digits 7 = str ''7''"
  by (simp add: str_def)

lemma number_string_7: "number_string w 7 = str ''7''"
  by (simp add: number_string_def str_def)

lemma path_ok_str: "path_ok (str s) \<longleftrightarrow> list_all (\<lambda>c. (33::nat) \<le> of_char c) s"
proof -
  have "(0x21 \<le> (of_char c :: 16 word) \<and> (of_char c :: 16 word) \<le> 0xFF) \<longleftrightarrow> (33::nat) \<le> of_char c" for c
  proof -
    have "(of_char c :: nat) \<le> 255"
      using nat_of_char_less_256 [of c] by arith
    then show ?thesis
      by (simp add: word_le_nat_alt unat_of_char)
  qed
  then show ?thesis
    by (simp add: path_ok_def str_def list_all_iff)
qed

lemmas str_eval =
  str_append str_append2 js_includes_str trim_Nil trim_Fix trim_PR trim_DENIED digits_7 number_string_7
  path_ok_str

lemmas demo_defs =
  demo_config_def demo_world_def silent_world_def zero_world_def refusing_world_def review_config_def
  demo_reply_def silent_reply_def refusing_reply_def demo_parse_def token_json_def pr_json_def
  denied_json_def initial_state_def demo_params_def created_def create_request_def step_request_def

lemmas request_defs =
  createGiteePullRequest_def reviewGiteePullRequest_def testGiteePullRequest_def
  mergeGiteePullRequest_def makeGiteeRequest_def getAccessToken_def getAccessToken_begin_def
  getAccessToken_end_def cache_serves_def on_response_def api_request_def api_path_def oauth_request_def
  create_body_def names_field_def labels_field_def pulls_path_def merge_path_def js_or_def
  round_double_safe

lemmas pr_defs =
  pr_def pr_respond_def pr_logged_def pr_failure_def pr_success_def pr_message_def auto_field_def
  step_caught_def auto_review_def auto_test_def auto_merge_def has_pr_number_def pr_number_def
  err_text_def status_suffix_def logRequest_def log_error_text_def error_toString_def new_entry_def
  has_own_def MAX_LOGS_def

section \<open>The merge gate\<close>

lemma on_response_object: "on_response w outcome = Inr r \<Longrightarrow> r \<noteq> JNull"
  by (auto simp: on_response_def Let_def split: http_outcome.splits sum.splits if_splits)

lemma on_response_empty:
  "200 \<le> status \<Longrightarrow> status < 300 \<Longrightarrow> trim body = [] \<Longrightarrow>
   on_response w (HttpReply status headers body) =
     Inr (JObj [(str ''statusCode'', JNum status), (str ''data'', JNull)])"
  by (simp add: on_response_def)

lemma makeGiteeRequest_object:
  "makeGiteeRequest cfg w method path data accessToken st = (Inr r, st') \<Longrightarrow> r \<noteq> JNull"
  by (auto simp: makeGiteeRequest_def Let_def dest: on_response_object
      split: prod.splits sum.splits if_splits option.splits)

lemma testGiteePullRequest_object:
  "testGiteePullRequest cfg w n force st = (Inr r, st') \<Longrightarrow> r \<noteq> JNull"
  by (auto simp: testGiteePullRequest_def invalid_pr_number_def dest: makeGiteeRequest_object
      split: if_splits option.splits)

lemma to_string_number: "typeof_number v \<Longrightarrow> to_string w v \<noteq> None"
  by (cases v) simp_all

subsection \<open>What the steps write\<close>

lemma step_caught_sent: "sent (snd (step_caught w name logged err st)) = sent st"
  using logRequest_frame(5) [of w "JStr name" logged JNull "err_text err" st]
  by (cases "logRequest w (JStr name) logged JNull (err_text err) st")
     (auto simp: step_caught_def split: option.splits)

lemma pr_failure_sent: "sent (snd (pr_failure w logged err st)) = sent st"
  using logRequest_frame(5) [of w "JStr (str ''pr'')" logged JNull "err_text err" st]
  by (cases "logRequest w (JStr (str ''pr'')) logged JNull (err_text err) st")
     (auto simp: pr_failure_def split: option.splits)

lemma pr_respond_sent:
  "sent (snd (pr_respond w params data reviewResult testResult mergeResult st)) = sent st"
  by (simp add: pr_respond_def pr_failure_sent split: sum.splits)

lemma only_posts_iff:
  "only_posts st st' \<longleftrightarrow>
     (\<exists>rs. sent st' = sent st @ rs \<and> list_all (\<lambda>request. req_method request = str ''POST'') rs)"
proof
  assume "only_posts st st'"
  then have "sent st' = sent st @ written st st'"
    and "list_all (\<lambda>request. req_method request = str ''POST'') (written st st')"
    by (simp_all add: only_posts_def written_def) (metis append_take_drop_id)
  then show "\<exists>rs. sent st' = sent st @ rs \<and> list_all (\<lambda>request. req_method request = str ''POST'') rs"
    by (rule_tac x = "written st st'" in exI) simp
next
  assume "\<exists>rs. sent st' = sent st @ rs \<and> list_all (\<lambda>request. req_method request = str ''POST'') rs"
  then show "only_posts st st'"
    by (auto simp: only_posts_def written_def)
qed

lemma only_posts_same: "sent st' = sent st \<Longrightarrow> only_posts st st'"
  by (simp add: only_posts_iff)

lemma only_posts_trans: "only_posts st st' \<Longrightarrow> only_posts st' st'' \<Longrightarrow> only_posts st st''"
  by (auto simp: only_posts_iff)

lemma getAccessToken_sent:
  "sent (snd (getAccessToken cfg w st)) =
     (if cache_serves st (date_now w (ticks st)) then sent st else sent st @ [oauth_request cfg])"
  by (simp add: getAccessToken_cached getAccessToken_exchange getAccessToken_end_sent)

lemma getAccessToken_posts: "only_posts st (snd (getAccessToken cfg w st))"
  by (simp add: only_posts_iff getAccessToken_sent oauth_request_def)

lemma makeGiteeRequest_sent:
  "sent (snd (makeGiteeRequest cfg w method path data JNull st)) =
     (case getAccessToken cfg w st of
        (Inl err, st1) \<Rightarrow> sent st1
      | (Inr tok, st1) \<Rightarrow>
          (case to_string w tok of
             None \<Rightarrow> sent st1
           | Some t \<Rightarrow>
               if path_ok (api_path path t) then sent st1 @ [api_request w method path data t]
               else sent st1))"
  by (simp add: makeGiteeRequest_def Let_def split: prod.splits sum.splits option.splits)

lemma makeGiteeRequest_posts:
  "only_posts st (snd (makeGiteeRequest cfg w (str ''POST'') path data JNull st))"
proof -
  obtain out st1 where g: "getAccessToken cfg w st = (out, st1)"
    by (cases "getAccessToken cfg w st")
  with getAccessToken_posts [of st cfg w] have a: "only_posts st st1"
    by simp
  have "only_posts st1 (snd (makeGiteeRequest cfg w (str ''POST'') path data JNull st))"
    by (simp add: only_posts_iff makeGiteeRequest_sent g api_request_def split: sum.splits option.splits)
  with a show ?thesis
    by (rule only_posts_trans)
qed

lemma create_posts:
  "only_posts st (snd (createGiteePullRequest cfg w title body draft st))"
  by (simp add: createGiteePullRequest_def Let_def makeGiteeRequest_posts only_posts_same split: json.splits)

lemma review_posts: "only_posts st (snd (reviewGiteePullRequest cfg w n force st))"
  by (simp add: reviewGiteePullRequest_def makeGiteeRequest_posts only_posts_same split: option.splits)

lemma test_posts: "only_posts st (snd (testGiteePullRequest cfg w n force st))"
  by (simp add: testGiteePullRequest_def makeGiteeRequest_posts only_posts_same split: option.splits)

lemma logged_posts: "only_posts st st1 \<Longrightarrow> only_posts st (snd (logRequest w m p r e st1))"
  by (simp add: only_posts_iff logRequest_frame)

lemma caught_posts: "only_posts st st1 \<Longrightarrow> only_posts st (snd (step_caught w name logged err st1))"
  by (simp add: only_posts_iff step_caught_sent)

lemma auto_review_posts: "only_posts st (snd (auto_review cfg w result st))"
proof -
  obtain out st1 where r: "reviewGiteePullRequest cfg w (pr_number result) False st = (out, st1)"
    by (cases "reviewGiteePullRequest cfg w (pr_number result) False st")
  with review_posts [of st cfg w "pr_number result" False] have "only_posts st st1"
    by simp
  with r show ?thesis
    by (cases out)
       (simp_all add: auto_review_def Let_def only_posts_same logged_posts caught_posts split: option.splits)
qed

lemma auto_test_posts: "only_posts st (snd (auto_test cfg w result st))"
proof -
  obtain out st1 where r: "testGiteePullRequest cfg w (pr_number result) False st = (out, st1)"
    by (cases "testGiteePullRequest cfg w (pr_number result) False st")
  with test_posts [of st cfg w "pr_number result" False] have "only_posts st st1"
    by simp
  with r show ?thesis
    by (cases out)
       (simp_all add: auto_test_def Let_def only_posts_same logged_posts caught_posts split: option.splits)
qed

subsection \<open>The test step and the merge step\<close>

lemma auto_test_outcome:
  assumes "auto_test cfg w result st = (Inr testResult, st')"
  shows "testResult \<noteq> JNull \<longleftrightarrow>
           AUTO_TEST cfg \<and> has_pr_number result \<and>
           (\<exists>r. fst (testGiteePullRequest cfg w (pr_number result) False st) = Inr r)"
proof (cases "AUTO_TEST cfg \<and> has_pr_number result")
  case False
  with assms show ?thesis by (auto simp: auto_test_def)
next
  case True
  obtain out st1 where t: "testGiteePullRequest cfg w (pr_number result) False st = (out, st1)"
    by (cases "testGiteePullRequest cfg w (pr_number result) False st")
  from assms True obtain number where n: "to_string w (pr_number result) = Some number"
    by (cases "to_string w (pr_number result)") (simp_all add: auto_test_def)
  show ?thesis
  proof (cases out)
    case (Inl e)
    with assms True t n have "testResult = JNull"
      by (cases "logRequest w (JStr (str ''auto_test''))
            (JObj [(str ''prNumber'', pr_number result), (str ''force'', JBool False)]) JNull (err_text e) st1")
         (auto simp: auto_test_def step_caught_def split: option.splits)
    with Inl t show ?thesis by simp
  next
    case (Inr r)
    with t have "r \<noteq> JNull" by (simp add: testGiteePullRequest_object)
    with assms True t n Inr show ?thesis by (auto simp add: auto_test_def)
  qed
qed

lemma auto_test_converts:
  assumes "auto_test cfg w result st = (Inr testResult, st')" and "AUTO_TEST cfg" and "has_pr_number result"
  shows "to_string w (pr_number result) \<noteq> None"
  using assms by (cases "to_string w (pr_number result)") (simp_all add: auto_test_def)

lemma auto_merge_closed:
  assumes "AUTO_TEST cfg" and "to_string w (pr_number result) \<noteq> None"
  shows "auto_merge cfg w result JNull st = (Inr JNull, st)"
  using assms by (auto simp: auto_merge_def)

lemma auto_merge_sent:
  assumes "AUTO_MERGE cfg" and "has_pr_number result" and "\<not> AUTO_TEST cfg \<or> testResult \<noteq> JNull"
  shows "sent (snd (auto_merge cfg w result testResult st)) =
           sent (snd (mergeGiteePullRequest cfg w (pr_number result) st))"
proof (cases "to_string w (pr_number result)")
  case None
  then have "\<not> typeof_number (pr_number result)"
    using to_string_number by blast
  with None assms show ?thesis
    by (simp add: auto_merge_def mergeGiteePullRequest_def)
next
  case (Some number)
  obtain out st1 where m: "mergeGiteePullRequest cfg w (pr_number result) st = (out, st1)"
    by (cases "mergeGiteePullRequest cfg w (pr_number result) st")
  with Some assms show ?thesis
    by (cases out) (auto simp: auto_merge_def Let_def logRequest_frame step_caught_sent)
qed

lemma merge_writes:
  assumes "n \<noteq> 0" and "getAccessToken cfg w st = (Inr tok, st')" and "to_string w tok = Some t"
    and "path_ok (api_path (merge_path cfg (number_string w n)) t)"
  shows "sent (snd (mergeGiteePullRequest cfg w (JNum n) st)) =
           sent st' @ [api_request w (str ''PUT'') (merge_path cfg (number_string w n)) JNull t]"
  using assms by (simp add: mergeGiteePullRequest_def makeGiteeRequest_sent merge_path_def)

lemma pr_created:
  assumes "createGiteePullRequest cfg w (get_prop params (str ''title'')) (get_prop params (str ''body''))
             (get_prop params (str ''draft'')) st = (Inr result, st1)"
    and "auto_review cfg w result (snd (logRequest w (JStr (str ''pr'')) (pr_logged params) result JNull st1)) =
           (Inr reviewResult, st3)"
    and "auto_test cfg w result st3 = (Inr testResult, st4)"
  shows "pr cfg w params st =
           (case auto_merge cfg w result testResult st4 of
              (Inl message, st5) \<Rightarrow> pr_failure w (pr_logged params) (Thrown message) st5
            | (Inr mergeResult, st5) \<Rightarrow>
                pr_respond w params (get_prop result (str ''data'')) reviewResult testResult mergeResult st5)"
  using assms by (simp add: pr_def Let_def)

lemma pr_created_sent:
  assumes "createGiteePullRequest cfg w (get_prop params (str ''title'')) (get_prop params (str ''body''))
             (get_prop params (str ''draft'')) st = (Inr result, st1)"
    and "auto_review cfg w result (snd (logRequest w (JStr (str ''pr'')) (pr_logged params) result JNull st1)) =
           (Inr reviewResult, st3)"
    and "auto_test cfg w result st3 = (Inr testResult, st4)"
  shows "sent (snd (pr cfg w params st)) = sent (snd (auto_merge cfg w result testResult st4))"
  by (simp add: pr_created [OF assms] pr_failure_sent pr_respond_sent split: prod.splits sum.splits)

lemma pr_success_flag:
  "pr_success w title data reviewResult testResult mergeResult = Inr response \<Longrightarrow>
   get_prop response (str ''success'') = JBool True"
  by (auto simp: pr_success_def split: if_splits option.splits)

lemma pr_success_without_merge:
  "pr_success w title data reviewResult testResult JNull = Inr response \<Longrightarrow>
   get_prop response (str ''auto_merge'') = JUndef"
  by (auto simp: pr_success_def auto_field_def split: if_splits option.splits)

text \<open>
  C1 fails on the code where a step before the merge ends in its \<^verbatim>\<open>catch\<close> block with an
  error that \<^verbatim>\<open>logRequest\<close> cannot turn into a string. Take a call of \<^verbatim>\<open>pr\<close> whose creation
  resolved with a pull request number, with \<^verbatim>\<open>AUTO_MERGE\<close> set.

  When the review step and the test step come to their end, the gate works as the claim
  says. The value \<open>testResult\<close> that the test step leaves is not \<^verbatim>\<open>null\<close> exactly when
  \<^verbatim>\<open>AUTO_TEST\<close> is on and the test call resolved; up to there only POST requests have been
  written. With \<^verbatim>\<open>AUTO_TEST\<close> on and \<open>testResult\<close> \<^verbatim>\<open>null\<close> the call goes on to its response
  from the state after the test step, with no merge result: nothing more is written, so
  no PUT request at all, and the response, when it can be built, is a success without an
  \<^verbatim>\<open>auto_merge\<close> part. With \<^verbatim>\<open>AUTO_TEST\<close> off or \<open>testResult\<close> not \<^verbatim>\<open>null\<close>, what \<^verbatim>\<open>pr\<close> has
  written is what \<^verbatim>\<open>mergeGiteePullRequest\<close> has written after the test step: when the number
  is a number, a token is there and the path is one that \<^verbatim>\<open>https.request\<close> accepts, the
  last request is the PUT request for \<^verbatim>\<open>/pulls/<number>/merge\<close>. A response with a status
  from 200 to 299 and an empty body resolves with an object whose data is \<^verbatim>\<open>null\<close>, so that
  such a test opens the gate.

  But when the \<^verbatim>\<open>catch\<close> block of the review step or of the test step throws, the \<^verbatim>\<open>catch\<close>
  block of \<^verbatim>\<open>pr\<close> takes over: no merge request is written whatever the gate says, and
  \<^verbatim>\<open>pr\<close> reports a failed creation.
\<close>

theorem merge_gate:
  assumes create: "createGiteePullRequest cfg w (get_prop params (str ''title''))
             (get_prop params (str ''body'')) (get_prop params (str ''draft'')) st = (Inr result, st1)"
    and number: "has_pr_number result"
    and flag: "AUTO_MERGE cfg"
  shows "(\<forall>reviewResult st3 testResult st4.
            auto_review cfg w result
              (snd (logRequest w (JStr (str ''pr'')) (pr_logged params) result JNull st1)) =
              (Inr reviewResult, st3) \<and>
            auto_test cfg w result st3 = (Inr testResult, st4) \<longrightarrow>
              (testResult \<noteq> JNull \<longleftrightarrow>
                 AUTO_TEST cfg \<and>
                 (\<exists>r. fst (testGiteePullRequest cfg w (pr_number result) False st3) = Inr r)) \<and>
              only_posts st st4 \<and>
              (AUTO_TEST cfg \<and> testResult = JNull \<longrightarrow>
                 pr cfg w params st =
                   pr_respond w params (get_prop result (str ''data'')) reviewResult JNull JNull st4 \<and>
                 sent (snd (pr cfg w params st)) = sent st4 \<and>
                 only_posts st (snd (pr cfg w params st)) \<and>
                 (\<forall>response.
                    pr_success w (get_prop params (str ''title'')) (get_prop result (str ''data''))
                      reviewResult JNull JNull = Inr response \<longrightarrow>
                      fst (pr cfg w params st) = Inr response \<and>
                      get_prop response (str ''success'') = JBool True \<and>
                      get_prop response (str ''auto_merge'') = JUndef)) \<and>
              (\<not> AUTO_TEST cfg \<or> testResult \<noteq> JNull \<longrightarrow>
                 sent (snd (pr cfg w params st)) =
                   sent (snd (mergeGiteePullRequest cfg w (pr_number result) st4)) \<and>
                 (\<forall>n tok st5 t.
                    pr_number result = JNum n \<and> getAccessToken cfg w st4 = (Inr tok, st5) \<and>
                    to_string w tok = Some t \<and>
                    path_ok (api_path (merge_path cfg (number_string w n)) t) \<longrightarrow>
                      sent (snd (pr cfg w params st)) =
                        sent st5 @
                        [api_request w (str ''PUT'') (merge_path cfg (number_string w n)) JNull t]))) \<and>
         (\<forall>message st3.
            auto_review cfg w result
              (snd (logRequest w (JStr (str ''pr'')) (pr_logged params) result JNull st1)) =
              (Inl message, st3) \<longrightarrow>
              pr cfg w params st = pr_failure w (pr_logged params) (Thrown message) st3 \<and>
              sent (snd (pr cfg w params st)) = sent st3 \<and>
              only_posts st (snd (pr cfg w params st))) \<and>
         (\<forall>reviewResult st3 message st4.
            auto_review cfg w result
              (snd (logRequest w (JStr (str ''pr'')) (pr_logged params) result JNull st1)) =
              (Inr reviewResult, st3) \<and>
            auto_test cfg w result st3 = (Inl message, st4) \<longrightarrow>
              pr cfg w params st = pr_failure w (pr_logged params) (Thrown message) st4 \<and>
              sent (snd (pr cfg w params st)) = sent st4 \<and>
              only_posts st (snd (pr cfg w params st))) \<and>
         (\<forall>status headers body.
            200 \<le> status \<and> status < 300 \<and> trim body = [] \<longrightarrow>
              on_response w (HttpReply status headers body) =
                Inr (JObj [(str ''statusCode'', JNum status), (str ''data'', JNull)]))"
proof -
  let ?st2 = "snd (logRequest w (JStr (str ''pr'')) (pr_logged params) result JNull st1)"
  let ?pr = "pr cfg w params st"
  have "only_posts st st1"
    using create_posts [of st cfg w "get_prop params (str ''title'')" "get_prop params (str ''body'')"
        "get_prop params (str ''draft'')"] create by simp
  then have to_st2: "only_posts st ?st2"
    by (rule logged_posts)
  have to_st3: "only_posts st st3" if "auto_review cfg w result ?st2 = (out, st3)" for out st3
  proof -
    have "only_posts ?st2 st3"
      using auto_review_posts [of ?st2 cfg w result] that by simp
    with to_st2 show ?thesis by (rule only_posts_trans)
  qed
  have to_st4: "only_posts st st4"
    if "auto_review cfg w result ?st2 = (out, st3)" and "auto_test cfg w result st3 = (out', st4)"
    for out st3 out' st4
  proof -
    have "only_posts st3 st4"
      using auto_test_posts [of st3 cfg w result] that(2) by simp
    with to_st3 [OF that(1)] show ?thesis by (rule only_posts_trans)
  qed
  have same: "only_posts st s'" if "only_posts st s" and "sent s' = sent s" for s s'
    using that by (simp add: only_posts_iff)
  have resolved: "\<forall>reviewResult st3 testResult st4.
      auto_review cfg w result ?st2 = (Inr reviewResult, st3) \<and>
      auto_test cfg w result st3 = (Inr testResult, st4) \<longrightarrow>
      (testResult \<noteq> JNull \<longleftrightarrow>
         AUTO_TEST cfg \<and> (\<exists>r. fst (testGiteePullRequest cfg w (pr_number result) False st3) = Inr r)) \<and>
      only_posts st st4 \<and>
      (AUTO_TEST cfg \<and> testResult = JNull \<longrightarrow>
         ?pr = pr_respond w params (get_prop result (str ''data'')) reviewResult JNull JNull st4 \<and>
         sent (snd ?pr) = sent st4 \<and>
         only_posts st (snd ?pr) \<and>
         (\<forall>response.
            pr_success w (get_prop params (str ''title'')) (get_prop result (str ''data''))
              reviewResult JNull JNull = Inr response \<longrightarrow>
              fst ?pr = Inr response \<and>
              get_prop response (str ''success'') = JBool True \<and>
              get_prop response (str ''auto_merge'') = JUndef)) \<and>
      (\<not> AUTO_TEST cfg \<or> testResult \<noteq> JNull \<longrightarrow>
         sent (snd ?pr) = sent (snd (mergeGiteePullRequest cfg w (pr_number result) st4)) \<and>
         (\<forall>n tok st5 t.
            pr_number result = JNum n \<and> getAccessToken cfg w st4 = (Inr tok, st5) \<and>
            to_string w tok = Some t \<and>
            path_ok (api_path (merge_path cfg (number_string w n)) t) \<longrightarrow>
              sent (snd ?pr) =
                sent st5 @ [api_request w (str ''PUT'') (merge_path cfg (number_string w n)) JNull t]))"
  proof (intro allI impI, elim conjE, goal_cases)
    case (1 reviewResult st3 testResult st4)
    note review = 1(1) and test = 1(2)
    show ?case
    proof (intro conjI impI allI)
      show "testResult \<noteq> JNull \<longleftrightarrow>
          AUTO_TEST cfg \<and> (\<exists>r. fst (testGiteePullRequest cfg w (pr_number result) False st3) = Inr r)"
        using auto_test_outcome [OF test] number by simp
      show posts: "only_posts st st4"
        using review test by (rule to_st4)
      note after = pr_created_sent [OF create review test]
      {
        assume closed: "AUTO_TEST cfg \<and> testResult = JNull"
        with test number have "to_string w (pr_number result) \<noteq> None"
          using auto_test_converts by blast
        with closed have m: "auto_merge cfg w result JNull st4 = (Inr JNull, st4)"
          by (simp add: auto_merge_closed)
        from closed have t: "testResult = JNull"
          by simp
        show p: "?pr = pr_respond w params (get_prop result (str ''data'')) reviewResult JNull JNull st4"
          using closed by (simp add: pr_created [OF create review test] m)
        show s: "sent (snd ?pr) = sent st4"
          by (simp add: after t m)
        from posts s show "only_posts st (snd ?pr)"
          by (rule same)
        fix response
        assume r: "pr_success w (get_prop params (str ''title'')) (get_prop result (str ''data''))
            reviewResult JNull JNull = Inr response"
        show "fst ?pr = Inr response"
          by (simp add: p pr_respond_def r)
        from r show "get_prop response (str ''success'') = JBool True"
          by (rule pr_success_flag)
        from r show "get_prop response (str ''auto_merge'') = JUndef"
          by (rule pr_success_without_merge)
      }
      {
        assume opened: "\<not> AUTO_TEST cfg \<or> testResult \<noteq> JNull"
        show s: "sent (snd ?pr) = sent (snd (mergeGiteePullRequest cfg w (pr_number result) st4))"
          by (simp add: after auto_merge_sent [OF flag number opened])
        fix n tok st5 t
        assume a: "pr_number result = JNum n \<and> getAccessToken cfg w st4 = (Inr tok, st5) \<and>
            to_string w tok = Some t \<and> path_ok (api_path (merge_path cfg (number_string w n)) t)"
        with number have "n \<noteq> 0"
          by (auto simp: has_pr_number_def)
        with a show "sent (snd ?pr) =
            sent st5 @ [api_request w (str ''PUT'') (merge_path cfg (number_string w n)) JNull t]"
          by (simp add: s merge_writes)
      }
    qed
  qed
  have review_thrown: "?pr = pr_failure w (pr_logged params) (Thrown message) st3 \<and>
      sent (snd ?pr) = sent st3 \<and> only_posts st (snd ?pr)"
    if review: "auto_review cfg w result ?st2 = (Inl message, st3)" for message st3
  proof -
    have p: "?pr = pr_failure w (pr_logged params) (Thrown message) st3"
      using create review by (simp add: pr_def Let_def)
    then have s: "sent (snd ?pr) = sent st3"
      by (simp add: pr_failure_sent)
    from to_st3 [OF review] s have "only_posts st (snd ?pr)"
      by (rule same)
    with p s show ?thesis by (intro conjI)
  qed
  have test_thrown: "?pr = pr_failure w (pr_logged params) (Thrown message) st4 \<and>
      sent (snd ?pr) = sent st4 \<and> only_posts st (snd ?pr)"
    if review: "auto_review cfg w result ?st2 = (Inr reviewResult, st3)"
      and test: "auto_test cfg w result st3 = (Inl message, st4)" for reviewResult st3 message st4
  proof -
    have p: "?pr = pr_failure w (pr_logged params) (Thrown message) st4"
      using create review test by (simp add: pr_def Let_def)
    then have s: "sent (snd ?pr) = sent st4"
      by (simp add: pr_failure_sent)
    from to_st4 [OF review test] s have "only_posts st (snd ?pr)"
      by (rule same)
    with p s show ?thesis by (intro conjI)
  qed
  have on_review: "\<forall>message st3.
      auto_review cfg w result ?st2 = (Inl message, st3) \<longrightarrow>
      ?pr = pr_failure w (pr_logged params) (Thrown message) st3 \<and>
      sent (snd ?pr) = sent st3 \<and> only_posts st (snd ?pr)"
    by (intro allI impI) (rule review_thrown)
  have on_test: "\<forall>reviewResult st3 message st4.
      auto_review cfg w result ?st2 = (Inr reviewResult, st3) \<and>
      auto_test cfg w result st3 = (Inl message, st4) \<longrightarrow>
      ?pr = pr_failure w (pr_logged params) (Thrown message) st4 \<and>
      sent (snd ?pr) = sent st4 \<and> only_posts st (snd ?pr)"
    by (intro allI impI) (elim conjE, rule test_thrown)
  have empty: "\<forall>status headers body.
      200 \<le> status \<and> status < 300 \<and> trim body = [] \<longrightarrow>
      on_response w (HttpReply status headers body) =
        Inr (JObj [(str ''statusCode'', JNum status), (str ''data'', JNull)])"
    by (simp add: on_response_empty)
  from resolved on_review on_test empty show ?thesis
    by (intro conjI)
qed

theorem merge_gate_witness:
  "AUTO_MERGE demo_config \<and> AUTO_TEST demo_config \<and> has_pr_number created \<and>
   fst (createGiteePullRequest demo_config demo_world (JStr (str ''Fix'')) JUndef JUndef initial_state) =
     Inr created \<and>
   sent (snd (pr demo_config demo_world demo_params initial_state)) =
     [oauth_request demo_config, create_request,
      step_request (str ''POST'') (str ''test'') (JStr (str ''json'')),
      step_request (str ''PUT'') (str ''merge'') JUndef] \<and>
   AUTO_MERGE review_config \<and> \<not> AUTO_TEST review_config \<and>
   fst (createGiteePullRequest review_config refusing_world (JStr (str ''Fix'')) JUndef JUndef initial_state) =
     Inr created \<and>
   sent (snd (pr review_config refusing_world demo_params initial_state)) =
     [oauth_request review_config, create_request,
      step_request (str ''POST'') (str ''review'') (JStr (str ''json''))] \<and>
   fst (pr review_config refusing_world demo_params initial_state) =
     Inr (JObj [
       (str ''success'', JBool False),
       (str ''error'', JStr (str ''Gitee Pull Request creation failed: error.toString is not a function'')),
       (str ''statusCode'', JNull),
       (str ''message'', JStr (str ''Failed to create Pull Request. Error: error.toString is not a function''))])"
proof -
  have p: "get_prop demo_params (str ''title'') = JStr (str ''Fix'')"
    "get_prop demo_params (str ''body'') = JUndef" "get_prop demo_params (str ''draft'') = JUndef"
    by (simp_all add: demo_params_def)
  have n: "has_pr_number created"
    by (simp add: has_pr_number_def pr_number_def created_def pr_json_def)
  have f: "AUTO_MERGE demo_config" "AUTO_TEST demo_config" "AUTO_MERGE review_config"
    "\<not> AUTO_TEST review_config"
    by (simp_all add: demo_config_def review_config_def)
  let ?create = "createGiteePullRequest demo_config demo_world (get_prop demo_params (str ''title''))
      (get_prop demo_params (str ''body'')) (get_prop demo_params (str ''draft'')) initial_state"
  let ?review = "auto_review demo_config demo_world created
      (snd (logRequest demo_world (JStr (str ''pr'')) (pr_logged demo_params) created JNull (snd ?create)))"
  let ?test = "auto_test demo_config demo_world created (snd ?review)"
  have fc: "fst ?create = Inr created"
    by (simp add: request_defs demo_defs Let_def str_eval)
  then have c: "?create = (Inr created, snd ?create)"
    by (metis prod.collapse)
  have "fst ?review = Inr JNull"
    by (simp add: auto_review_def demo_config_def)
  then have r: "?review = (Inr JNull, snd ?review)"
    by (metis prod.collapse)
  have "fst ?test = Inr (JObj [(str ''statusCode'', JNum 204), (str ''data'', JNull)])"
    by (simp add: pr_defs request_defs demo_defs Let_def str_eval)
  then have t: "?test = (Inr (JObj [(str ''statusCode'', JNum 204), (str ''data'', JNull)]), snd ?test)"
    by (metis prod.collapse)
  from merge_gate [OF c n f(1)] r t
  have "sent (snd (pr demo_config demo_world demo_params initial_state)) =
      sent (snd (mergeGiteePullRequest demo_config demo_world (pr_number created) (snd ?test)))"
    by blast
  also have "\<dots> = [oauth_request demo_config, create_request,
      step_request (str ''POST'') (str ''test'') (JStr (str ''json'')),
      step_request (str ''PUT'') (str ''merge'') JUndef]"
    by (simp add: pr_defs request_defs demo_defs Let_def str_eval)
  finally have merged: "sent (snd (pr demo_config demo_world demo_params initial_state)) =
      [oauth_request demo_config, create_request,
       step_request (str ''POST'') (str ''test'') (JStr (str ''json'')),
       step_request (str ''PUT'') (str ''merge'') JUndef]" .
  let ?create' = "createGiteePullRequest review_config refusing_world (get_prop demo_params (str ''title''))
      (get_prop demo_params (str ''body'')) (get_prop demo_params (str ''draft'')) initial_state"
  let ?review' = "auto_review review_config refusing_world created
      (snd (logRequest refusing_world (JStr (str ''pr'')) (pr_logged demo_params) created JNull (snd ?create')))"
  have fc': "fst ?create' = Inr created"
    by (simp add: request_defs demo_defs Let_def str_eval)
  then have c': "?create' = (Inr created, snd ?create')"
    by (metis prod.collapse)
  have "fst ?review' = Inl (str ''error.toString is not a function'')"
    by (simp add: pr_defs request_defs demo_defs Let_def str_eval not_a_function_def)
  then have r': "?review' = (Inl (str ''error.toString is not a function''), snd ?review')"
    by (metis prod.collapse)
  from merge_gate [OF c' n f(3)] r'
  have thrown: "pr review_config refusing_world demo_params initial_state =
      pr_failure refusing_world (pr_logged demo_params)
        (Thrown (str ''error.toString is not a function'')) (snd ?review')"
    by blast
  have unmerged: "sent (snd (pr review_config refusing_world demo_params initial_state)) =
      [oauth_request review_config, create_request,
       step_request (str ''POST'') (str ''review'') (JStr (str ''json''))]"
    unfolding thrown
    by (simp add: pr_failure_sent) (simp add: pr_defs request_defs demo_defs Let_def str_eval)
  have failed: "fst (pr review_config refusing_world demo_params initial_state) =
      Inr (JObj [
        (str ''success'', JBool False),
        (str ''error'', JStr (str ''Gitee Pull Request creation failed: error.toString is not a function'')),
        (str ''statusCode'', JNull),
        (str ''message'', JStr (str ''Failed to create Pull Request. Error: error.toString is not a function''))])"
    unfolding thrown
    by (simp add: pr_failure_def err_text_def js_or_def status_suffix_def logRequest_def Let_def str_eval)
  from f n fc fc' merged unmerged failed show ?thesis
    by (simp add: p)
qed

section \<open>A creation that brings no data\<close>

text \<open>
  C2 fails on the code where gitee.com answers the creation with status 201 and an empty
  body: \<^verbatim>\<open>createGiteePullRequest\<close> resolves (with \<^verbatim>\<open>data: null\<close>) and the creation is logged as
  a success, the steps guarded by \<^verbatim>\<open>result.data && result.data.number\<close> are skipped, and
  then \<^verbatim>\<open>result.data.html_url\<close> throws a TypeError that the \<^verbatim>\<open>catch\<close> of \<^verbatim>\<open>pr\<close> reports as a
  failed creation: the call fails although the creation step did not.
\<close>

theorem created_without_data:
  "fst (createGiteePullRequest demo_config silent_world (JStr (str ''Fix'')) JUndef JUndef initial_state) =
     Inr (JObj [(str ''statusCode'', JNum 201), (str ''data'', JNull)]) \<and>
   fst (pr demo_config silent_world demo_params initial_state) =
     Inr (JObj [
       (str ''success'', JBool False),
       (str ''error'', JStr (str ''Gitee Pull Request creation failed: '' @ cannot_read JNull (str ''html_url''))),
       (str ''statusCode'', JNull),
       (str ''message'',
          JStr (str ''Failed to create Pull Request. Error: '' @ cannot_read JNull (str ''html_url'')))]) \<and>
   map log_method (operationLogs (snd (pr demo_config silent_world demo_params initial_state))) =
     [JStr (str ''pr''), JStr (str ''pr'')] \<and>
   map log_error (operationLogs (snd (pr demo_config silent_world demo_params initial_state))) =
     [JStr (cannot_read JNull (str ''html_url'')), JNull]"
  by (simp add: pr_defs request_defs demo_defs Let_def str_eval cannot_read_def)

section \<open>Malformed requests\<close>

lemma error_codes:
  "error_code (str ''Invalid request: request must be an object'') = - 32603"
  "error_code (str ''Unsupported JSON-RPC version. Only 2.0 is supported.'') = - 32600"
  "error_code (str ''Invalid request: method is required and must be a string'') = - 32603"
  by (simp_all add: error_code_def js_includes_str)

lemma caught_response:
  "\<not> is_notification method \<Longrightarrow>
   fst (caught w method params rid message st) =
     (if to_string w method = None then Threw cannot_convert
      else Responded (Some (ErrorEnvelope (response_id rid) (error_code message) message)))"
  by (auto simp: caught_def logRequest_def Let_def split: prod.splits option.splits)

text \<open>
  C8 fails on the code for two of the three malformed envelopes. A request that is no
  object and a request without a method (or with a method that is no string) get the code
  -32603 of an internal error, not -32600; only the wrong version tag gets -32600, and
  there the \<^verbatim>\<open>id\<close> is \<^verbatim>\<open>null\<close> even when the request has one, since the \<^verbatim>\<open>id\<close> is read after the
  version has been checked. A method that cannot be converted to a string gets no response
  at all: the line for the log file throws, and the TypeError leaves \<^verbatim>\<open>handleRequest\<close>.
\<close>

theorem malformed_request:
  "(\<not> truthy request \<or> \<not> typeof_object request \<longrightarrow>
      fst (handleRequest cfg w request st) =
        Responded (Some (ErrorEnvelope JNull (- 32603) (str ''Invalid request: request must be an object'')))) \<and>
   (truthy request \<and> typeof_object request \<and> get_prop request (str ''jsonrpc'') \<noteq> JStr (str ''2.0'') \<longrightarrow>
      fst (handleRequest cfg w request st) =
        Responded (Some (ErrorEnvelope JNull (- 32600)
          (str ''Unsupported JSON-RPC version. Only 2.0 is supported.'')))) \<and>
   (truthy request \<and> typeof_object request \<and> get_prop request (str ''jsonrpc'') = JStr (str ''2.0'') \<and>
    (\<not> typeof_string (get_prop request (str ''method'')) \<or> get_prop request (str ''method'') = JStr []) \<longrightarrow>
      fst (handleRequest cfg w request st) =
        (if to_string w (get_prop request (str ''method'')) = None then Threw cannot_convert
         else Responded (Some (ErrorEnvelope (response_id (get_prop request (str ''id''))) (- 32603)
                (str ''Invalid request: method is required and must be a string'')))))"
proof (intro conjI impI)
  assume "\<not> truthy request \<or> \<not> typeof_object request"
  then show "fst (handleRequest cfg w request st) =
        Responded (Some (ErrorEnvelope JNull (- 32603) (str ''Invalid request: request must be an object'')))"
    by (simp add: handleRequest_def caught_response is_notification_def error_codes response_id_def)
next
  assume "truthy request \<and> typeof_object request \<and> get_prop request (str ''jsonrpc'') \<noteq> JStr (str ''2.0'')"
  then show "fst (handleRequest cfg w request st) =
        Responded (Some (ErrorEnvelope JNull (- 32600)
          (str ''Unsupported JSON-RPC version. Only 2.0 is supported.'')))"
    by (simp add: handleRequest_def caught_response is_notification_def error_codes response_id_def)
next
  let ?m = "get_prop request (str ''method'')"
  assume a: "truthy request \<and> typeof_object request \<and> get_prop request (str ''jsonrpc'') = JStr (str ''2.0'') \<and>
    (\<not> typeof_string ?m \<or> ?m = JStr [])"
  then have n: "\<not> is_notification ?m"
    by (auto simp: is_notification_def)
  from a have "handleRequest cfg w request st =
      caught w ?m (get_prop request (str ''params'')) (get_prop request (str ''id''))
        (str ''Invalid request: method is required and must be a string'') st"
    by (cases ?m) (auto simp: handleRequest_def Let_def)
  then show "fst (handleRequest cfg w request st) =
        (if to_string w ?m = None then Threw cannot_convert
         else Responded (Some (ErrorEnvelope (response_id (get_prop request (str ''id''))) (- 32603)
                (str ''Invalid request: method is required and must be a string''))))"
    by (simp add: caught_response [OF n] error_codes)
qed

theorem malformed_request_witness:
  "fst (handleRequest demo_config demo_world (JNum 5) initial_state) =
     Responded (Some (ErrorEnvelope JNull (- 32603) (str ''Invalid request: request must be an object''))) \<and>
   fst (handleRequest demo_config demo_world
          (JObj [(str ''jsonrpc'', JStr (str ''1.0'')), (str ''id'', JNum 7), (str ''method'', JStr (str ''ping''))])
          initial_state) =
     Responded (Some (ErrorEnvelope JNull (- 32600)
       (str ''Unsupported JSON-RPC version. Only 2.0 is supported.''))) \<and>
   fst (handleRequest demo_config demo_world
          (JObj [(str ''jsonrpc'', JStr (str ''2.0'')), (str ''id'', JNum 7)]) initial_state) =
     Responded (Some (ErrorEnvelope (JNum 7) (- 32603)
       (str ''Invalid request: method is required and must be a string''))) \<and>
   fst (handleRequest demo_config demo_world
          (JObj [(str ''jsonrpc'', JStr (str ''2.0'')), (str ''id'', JNum 7),
                 (str ''method'', JObj [(str ''toString'', JNum 1)])]) initial_state) =
     Threw cannot_convert"
  using malformed_request [of "JNum 5" demo_config demo_world initial_state]
    malformed_request [of "JObj [(str ''jsonrpc'', JStr (str ''1.0'')), (str ''id'', JNum 7), (str ''method'', JStr (str ''ping''))]"
      demo_config demo_world initial_state]
    malformed_request [of "JObj [(str ''jsonrpc'', JStr (str ''2.0'')), (str ''id'', JNum 7)]"
      demo_config demo_world initial_state]
    malformed_request [of "JObj [(str ''jsonrpc'', JStr (str ''2.0'')), (str ''id'', JNum 7),
                 (str ''method'', JObj [(str ''toString'', JNum 1)])]"
      demo_config demo_world initial_state]
  by (simp add: response_id_def has_own_def)

section \<open>The log of a request\<close>

lemma completed_appends:
  "\<exists>e. log_method e = JStr m \<and>
       operationLogs (snd (completed w m p rid res st)) = take MAX_LOGS (e # operationLogs st)"
proof -
  have l: "log_error_text w JNull = Inr JNull" by simp
  show ?thesis
    by (rule exI [of _ "new_entry w (JStr m) (js_or p (JObj [])) res JNull st"])
       (simp add: completed_def Let_def logRequest_logs [OF l])
qed

lemma caught_appends:
  assumes "message \<noteq> []"
  shows "\<exists>e. log_method e = m \<and>
       operationLogs (snd (caught w m p rid message st)) = take MAX_LOGS (e # operationLogs st)"
proof -
  have l: "log_error_text w (JStr message) = Inr (JStr message)"
    using assms by simp
  obtain thrown1 st1 where c: "logRequest w m (js_or p (JObj [])) JNull (JStr message) st = (thrown1, st1)"
    by (cases "logRequest w m (js_or p (JObj [])) JNull (JStr message) st")
  with logRequest_logs [OF l, of m "js_or p (JObj [])" JNull st]
  have "operationLogs st1 =
      take MAX_LOGS (new_entry w m (js_or p (JObj [])) JNull (JStr message) st # operationLogs st)"
    by simp
  moreover have "snd (caught w m p rid message st) = st1"
    using assms c by (simp add: caught_def Let_def split: option.splits)
  ultimately show ?thesis
    by (intro exI [of _ "new_entry w m (js_or p (JObj [])) JNull (JStr message) st"]) simp
qed

lemma logs_message: "logs params st = (Inl message, st') \<Longrightarrow> message \<noteq> []"
  by (auto simp: logs_def Let_def split: json.splits if_splits)

lemma failure_message:
  assumes "logRequest w m p r e st = (thrown, st1)"
    and "(case thrown of
            Some message \<Rightarrow> (Inl message, st1)
          | None \<Rightarrow>
              (case (to_string w v, suffix) of
                 (Some text, Some status) \<Rightarrow> good text status
               | _ \<Rightarrow> (Inl cannot_convert, st1))) = (Inl message, st')"
    and "\<And>text status. good text status = (Inl message, st') \<Longrightarrow> message \<noteq> []"
  shows "message \<noteq> []"
proof (cases thrown)
  case (Some m')
  with assms(1) have "m' \<noteq> []"
    using logRequest_message [of w m p r e st m'] by simp
  with Some assms(2) show ?thesis by simp
next
  case None
  with assms(2,3) show ?thesis
    by (auto simp: cannot_convert_def split: option.splits)
qed

lemma pr_failure_message: "pr_failure w logged err st = (Inl message, st') \<Longrightarrow> message \<noteq> []"
proof -
  assume a: "pr_failure w logged err st = (Inl message, st')"
  obtain thrown st1 where l: "logRequest w (JStr (str ''pr'')) logged JNull (err_text err) st = (thrown, st1)"
    by (cases "logRequest w (JStr (str ''pr'')) logged JNull (err_text err) st")
  show ?thesis
  proof (cases thrown)
    case (Some m')
    with l have "m' \<noteq> []"
      using logRequest_message [of w "JStr (str ''pr'')" logged JNull "err_text err" st m'] by simp
    with Some a l show ?thesis by (simp add: pr_failure_def)
  next
    case None
    with a l show ?thesis
      by (auto simp: pr_failure_def cannot_convert_def split: option.splits)
  qed
qed

lemma token_failure_message: "token_failure w err st = (Inl message, st') \<Longrightarrow> message \<noteq> []"
proof -
  assume a: "token_failure w err st = (Inl message, st')"
  obtain thrown st1 where l: "logRequest w (JStr (str ''token'')) (JObj []) JNull (err_text err) st = (thrown, st1)"
    by (cases "logRequest w (JStr (str ''token'')) (JObj []) JNull (err_text err) st")
  show ?thesis
  proof (cases thrown)
    case (Some m')
    with l have "m' \<noteq> []"
      using logRequest_message [of w "JStr (str ''token'')" "JObj []" JNull "err_text err" st m'] by simp
    with Some a l show ?thesis by (simp add: token_failure_def)
  next
    case None
    with a l show ?thesis
      by (auto simp: token_failure_def cannot_convert_def split: option.splits)
  qed
qed

lemma pr_message_thrown: "pr cfg w params st = (Inl message, st') \<Longrightarrow> message \<noteq> []"
  by (auto simp: pr_def pr_respond_def Let_def dest: pr_failure_message split: prod.splits sum.splits)

lemma token_message_thrown: "token cfg w params st = (Inl message, st') \<Longrightarrow> message \<noteq> []"
  by (auto simp: token_def Let_def dest: token_failure_message split: prod.splits sum.splits json.splits)

lemma tools_call_message:
  assumes "tools_call cfg w params st = (Inl message, st1)" and "target cfg w st params \<noteq> Foreign"
  shows "message \<noteq> []"
proof -
  let ?name = "get_prop (js_or params (JObj [])) (str ''name'')"
  let ?args = "js_or (get_prop (js_or params (JObj [])) (str ''arguments'')) (JObj [])"
  show ?thesis
  proof (cases "truthy ?name")
    case False
    with assms(1) have "message = str ''Missing tool name''"
      by (simp add: tools_call_def Let_def)
    then show ?thesis by simp
  next
    case named: True
    show ?thesis
    proof (cases "strip_prefix cfg ?name")
      case (Inl m)
      then have "m = not_a_function (str ''name.startsWith'')"
        by (simp add: strip_prefix_def split: if_splits json.splits)
      moreover from assms(1) named Inl have "message = m"
        by (simp add: tools_call_def Let_def)
      ultimately show ?thesis by (simp add: not_a_function_def)
    next
      case (Inr actual)
      show ?thesis
      proof (cases "to_string w actual")
        case None
        with assms(1) named Inr have "message = cannot_convert"
          by (simp add: tools_call_def Let_def)
        then show ?thesis by (simp add: cannot_convert_def)
      next
        case key: (Some key)
        show ?thesis
        proof (cases "to_string w ?name")
          case None
          with assms(1) named Inr key have "message = cannot_convert"
            by (simp add: tools_call_def Let_def)
          then show ?thesis by (simp add: cannot_convert_def)
        next
          case shown: (Some shown)
          from named Inr key assms(2) have nf: "lookup_member w st key \<noteq> Foreign"
            by (simp add: target_def Let_def)
          show ?thesis
          proof (cases "lookup_member w st key")
            case ToolPr
            with assms(1) named Inr key shown show ?thesis
              by (auto simp: tools_call_def Let_def dest: pr_message_thrown
                  split: prod.splits sum.splits if_splits)
          next
            case ToolToken
            with assms(1) named Inr key shown show ?thesis
              by (auto simp: tools_call_def Let_def dest: token_message_thrown
                  split: prod.splits sum.splits)
          next
            case ToolLogs
            with assms(1) named Inr key shown show ?thesis
              by (auto simp: tools_call_def Let_def dest: logs_message
                  split: prod.splits sum.splits)
          next
            case (Field v)
            with assms(1) named Inr key shown have
              "message = unknown_tool cfg shown key \<or> message = not_a_function (str ''this[actualMethodName]'')"
              by (simp add: tools_call_def Let_def split: if_splits)
            then show ?thesis
              by (simp add: unknown_tool_def not_a_function_def) (elim disjE; simp)
          next
            case Foreign
            with nf show ?thesis by simp
          next
            case Absent
            with assms(1) named Inr key shown have "message = unknown_tool cfg shown key"
              by (simp add: tools_call_def Let_def)
            then show ?thesis
              by (simp add: unknown_tool_def)
          qed
        qed
      qed
    qed
  qed
qed

lemma completed_appends_after:
  "operationLogs st0 = operationLogs st \<Longrightarrow>
   \<exists>e. log_method e = JStr m \<and>
       operationLogs (snd (completed w m p rid res st0)) = take MAX_LOGS (e # operationLogs st)"
  using completed_appends [of m w p rid res st0] by simp

lemma plain_method_logged:
  assumes "valid_envelope request" and "get_prop request (str ''method'') = JStr s" and "s \<noteq> []"
    and "s \<noteq> str ''tools/call''" and "s \<noteq> str ''ping''"
    and "s \<noteq> str ''notifications/initialized''" and "s \<noteq> str ''notifications/exit''"
  shows "\<exists>e. log_method e = JStr s \<and>
           operationLogs (snd (handleRequest cfg w request st)) = take MAX_LOGS (e # operationLogs st)"
  using assms
  by (simp add: handleRequest_def valid_envelope_def Let_def completed_appends_after caught_appends)

lemma no_method_logged:
  assumes "valid_envelope request" and "\<not> typeof_string m \<or> m = JStr []"
    and "get_prop request (str ''method'') = m"
  shows "\<exists>e. log_method e = m \<and>
           operationLogs (snd (handleRequest cfg w request st)) = take MAX_LOGS (e # operationLogs st)"
  using assms
  by (cases m) (simp_all add: handleRequest_def valid_envelope_def Let_def caught_appends)

lemma invalid_envelope_logged:
  assumes "\<not> valid_envelope request"
  shows "\<exists>e. log_method e = JNull \<and>
           operationLogs (snd (handleRequest cfg w request st)) = take MAX_LOGS (e # operationLogs st)"
  using assms
  by (auto simp add: handleRequest_def valid_envelope_def caught_appends)

lemma tools_call_logged:
  assumes "valid_envelope request" and "get_prop request (str ''method'') = JStr (str ''tools/call'')"
    and "target cfg w st (get_prop request (str ''params'')) \<noteq> Foreign"
  shows "\<exists>e. log_method e = JStr (str ''tools/call'') \<and>
           operationLogs (snd (handleRequest cfg w request st)) =
             take MAX_LOGS (e # operationLogs (snd (tools_call cfg w (get_prop request (str ''params'')) st)))"
proof -
  let ?params = "get_prop request (str ''params'')"
  obtain out st1 where t: "tools_call cfg w ?params st = (out, st1)"
    by (cases "tools_call cfg w ?params st")
  show ?thesis
  proof (cases out)
    case (Inl message)
    with t assms(3) have "message \<noteq> []" by (simp add: tools_call_message)
    with assms(1,2) t Inl show ?thesis
      by (simp add: handleRequest_def valid_envelope_def Let_def caught_appends)
  next
    case (Inr result)
    with assms(1,2) t show ?thesis
      by (simp add: handleRequest_def valid_envelope_def Let_def completed_appends)
  qed
qed

lemma REPO_NAME_demo: "REPO_NAME demo_config = str ''widgets''"
  by (simp add: REPO_NAME_def demo_config_def is_alnum_def str_def)

lemma dq_str: "dq = str [CHR 0x22]"
  by (simp add: dq_def str_def)

lemma target_demo:
  "target demo_config demo_world st (get_prop (call_request (str ''pr'')) (str ''params'')) = ToolPr"
  by (simp add: target_def call_request_def strip_prefix_def REPO_NAME_demo lookup_member_def js_or_def
      starts_with_str str_append Let_def)

lemma call_request_envelope:
  "valid_envelope (call_request name)"
  "get_prop (call_request name) (str ''method'') = JStr (str ''tools/call'')"
  by (simp_all add: valid_envelope_def call_request_def)

text \<open>
  C9, as the code has it. Unless the call reaches a member of the server that is no tool,
  handling a request appends one entry for the request itself: under \<^verbatim>\<open>null\<close> when the
  envelope is not valid, under the method of the request otherwise, in the \<^verbatim>\<open>catch\<close> block
  when something was thrown and in the \<^verbatim>\<open>finally\<close> block when nothing was. For
  \<^verbatim>\<open>tools/call\<close> that entry follows the entries that the tool has appended on its own
  account (\<^verbatim>\<open>pr\<close>, \<^verbatim>\<open>auto_review\<close>, \<^verbatim>\<open>auto_test\<close>, \<^verbatim>\<open>auto_merge\<close>, \<^verbatim>\<open>token\<close>); for every other
  method but \<^verbatim>\<open>ping\<close>, \<^verbatim>\<open>notifications/initialized\<close> and \<^verbatim>\<open>notifications/exit\<close> it is the
  only entry. \<^verbatim>\<open>notifications/exit\<close> ends the process before anything is logged. Nothing
  is said here of \<^verbatim>\<open>ping\<close> and \<^verbatim>\<open>notifications/initialized\<close>.
\<close>

theorem request_logged:
  assumes "\<not> calls_member cfg w st request Foreign"
  shows "(\<not> valid_envelope request \<longrightarrow>
            (\<exists>e. log_method e = JNull \<and>
               operationLogs (snd (handleRequest cfg w request st)) = take MAX_LOGS (e # operationLogs st))) \<and>
         (valid_envelope request \<and>
          get_prop request (str ''method'') \<noteq> JStr (str ''tools/call'') \<and>
          get_prop request (str ''method'') \<noteq> JStr (str ''ping'') \<and>
          get_prop request (str ''method'') \<noteq> JStr (str ''notifications/initialized'') \<and>
          get_prop request (str ''method'') \<noteq> JStr (str ''notifications/exit'') \<longrightarrow>
            (\<exists>e. log_method e = get_prop request (str ''method'') \<and>
               operationLogs (snd (handleRequest cfg w request st)) = take MAX_LOGS (e # operationLogs st))) \<and>
         (valid_envelope request \<and> get_prop request (str ''method'') = JStr (str ''tools/call'') \<longrightarrow>
            (\<exists>e. log_method e = JStr (str ''tools/call'') \<and>
               operationLogs (snd (handleRequest cfg w request st)) =
                 take MAX_LOGS
                   (e # operationLogs (snd (tools_call cfg w (get_prop request (str ''params'')) st))))) \<and>
         (valid_envelope request \<and> get_prop request (str ''method'') = JStr (str ''notifications/exit'') \<longrightarrow>
            handleRequest cfg w request st = (Exited, st))"
proof (intro conjI impI)
  assume "\<not> valid_envelope request"
  then show "\<exists>e. log_method e = JNull \<and>
      operationLogs (snd (handleRequest cfg w request st)) = take MAX_LOGS (e # operationLogs st)"
    by (rule invalid_envelope_logged)
next
  let ?m = "get_prop request (str ''method'')"
  assume a: "valid_envelope request \<and> ?m \<noteq> JStr (str ''tools/call'') \<and> ?m \<noteq> JStr (str ''ping'') \<and>
      ?m \<noteq> JStr (str ''notifications/initialized'') \<and> ?m \<noteq> JStr (str ''notifications/exit'')"
  show "\<exists>e. log_method e = ?m \<and>
      operationLogs (snd (handleRequest cfg w request st)) = take MAX_LOGS (e # operationLogs st)"
  proof (cases "\<not> typeof_string ?m \<or> ?m = JStr []")
    case True
    with a show ?thesis by (simp add: no_method_logged)
  next
    case False
    then obtain s where s: "?m = JStr s" "s \<noteq> []"
      by (cases ?m) auto
    with a have "\<exists>e. log_method e = JStr s \<and>
        operationLogs (snd (handleRequest cfg w request st)) = take MAX_LOGS (e # operationLogs st)"
      by (intro plain_method_logged) simp_all
    with s show ?thesis by simp
  qed
next
  assume a: "valid_envelope request \<and> get_prop request (str ''method'') = JStr (str ''tools/call'')"
  with assms have "target cfg w st (get_prop request (str ''params'')) \<noteq> Foreign"
    by (simp add: calls_member_def)
  with a show "\<exists>e. log_method e = JStr (str ''tools/call'') \<and>
      operationLogs (snd (handleRequest cfg w request st)) =
        take MAX_LOGS (e # operationLogs (snd (tools_call cfg w (get_prop request (str ''params'')) st)))"
    by (simp add: tools_call_logged)
next
  assume "valid_envelope request \<and> get_prop request (str ''method'') = JStr (str ''notifications/exit'')"
  then show "handleRequest cfg w request st = (Exited, st)"
    by (simp add: handleRequest_def valid_envelope_def Let_def)
qed

theorem request_logged_witness:
  "\<not> calls_member demo_config demo_world initial_state (call_request (str ''pr'')) Foreign \<and>
   valid_envelope (call_request (str ''pr'')) \<and>
   (\<exists>e. log_method e = JStr (str ''tools/call'') \<and>
      operationLogs (snd (handleRequest demo_config demo_world (call_request (str ''pr'')) initial_state)) =
        take MAX_LOGS
          (e # operationLogs (snd (tools_call demo_config demo_world
                 (get_prop (call_request (str ''pr'')) (str ''params'')) initial_state))))"
proof -
  have n: "\<not> calls_member demo_config demo_world initial_state (call_request (str ''pr'')) Foreign"
    by (simp add: calls_member_def target_demo)
  from request_logged [OF n] call_request_envelope [of "str ''pr''"] n show ?thesis
    by simp
qed

text \<open>
  C9 as stated fails for a call of a tool: the \<^verbatim>\<open>pr\<close> tool, called without a title, logs its
  failure under \<^verbatim>\<open>pr\<close>, and the dispatcher then logs the request under \<^verbatim>\<open>tools/call\<close>. Two
  entries are appended to the empty log.
\<close>

theorem tool_call_logged_twice:
  "operationLogs initial_state = [] \<and>
   map log_method
     (operationLogs (snd (handleRequest demo_config demo_world (call_request (str ''pr'')) initial_state))) =
     [JStr (str ''tools/call''), JStr (str ''pr'')]"
  by (simp add: handleRequest_def call_request_def tools_call_def strip_prefix_def REPO_NAME_demo
      lookup_member_def js_or_def starts_with_str str_append Let_def pr_def title_missing_create
      title_missing_def pr_failure_def completed_def is_notification_def logRequest_def new_entry_def
      MAX_LOGS_def initial_state_def demo_world_def invalid_title_def err_text_def status_suffix_def)

section \<open>The initialized flag\<close>

text \<open>
  C10 fails on the code for \<^verbatim>\<open>tools/call\<close> with the tool name \<^verbatim>\<open>initialized\<close>:
  \<^verbatim>\<open>this[actualMethodName]\<close> reads the flag. While the flag is false the tool is reported
  unknown; once it is true the field is called, and the TypeError says that it is no
  function. Whatever the world and the rest of the state are, the error envelope of the
  call depends on the flag.
\<close>

theorem initialized_consulted:
  "fst (handleRequest demo_config w (call_request (str ''initialized'')) st) =
     Responded (Some (ErrorEnvelope (JNum 1) (- 32603)
       (if initialized st then str ''this[actualMethodName] is not a function''
        else str (''Unknown tool: initialized. PROJECT_NAME='' @ [CHR 0x22, CHR 0x22] @
                  '', actualMethodName='' @ [CHR 0x22] @ ''initialized'' @ [CHR 0x22] @
                  ''. Available methods: pr, token, logs''))))"
proof -
  define unknown where "unknown = str (''Unknown tool: initialized. PROJECT_NAME='' @ [CHR 0x22, CHR 0x22] @
      '', actualMethodName='' @ [CHR 0x22] @ ''initialized'' @ [CHR 0x22] @
      ''. Available methods: pr, token, logs'')"
  define called where "called = str ''this[actualMethodName] is not a function''"
  have u: "unknown_tool demo_config (str ''initialized'') (str ''initialized'') = unknown"
    unfolding unknown_def
    by (simp add: unknown_tool_def demo_config_def dq_str str_append str_append2)
  have f: "not_a_function (str ''this[actualMethodName]'') = called"
    unfolding called_def
    by (simp add: not_a_function_def str_append)
  have c: "error_code unknown = - 32603" "error_code called = - 32603"
    unfolding unknown_def called_def
    by (simp_all add: error_code_def js_includes_str)
  have t: "tools_call demo_config w (get_prop (call_request (str ''initialized'')) (str ''params'')) st =
      (Inl (if initialized st then called else unknown), st)"
    by (simp add: tools_call_def call_request_def strip_prefix_def REPO_NAME_demo lookup_member_def js_or_def
        starts_with_str str_append Let_def u f)
  have n: "\<not> is_notification (JStr (str ''tools/call''))"
    by (simp add: is_notification_def)
  have h: "handleRequest demo_config w (call_request (str ''initialized'')) st =
      caught w (JStr (str ''tools/call'')) (get_prop (call_request (str ''initialized'')) (str ''params''))
        (JNum 1) (if initialized st then called else unknown) st"
    using call_request_envelope [of "str ''initialized''"]
    by (simp add: handleRequest_def valid_envelope_def Let_def t) (simp add: call_request_def)
  have "fst (caught w (JStr (str ''tools/call''))
        (get_prop (call_request (str ''initialized'')) (str ''params''))
        (JNum 1) (if initialized st then called else unknown) st) =
      Responded (Some (ErrorEnvelope (JNum 1) (- 32603) (if initialized st then called else unknown)))"
    by (simp add: caught_response [OF n] response_id_def c)
  with h show ?thesis
    unfolding unknown_def called_def by simp
qed

theorem initialized_consulted_witness:
  "\<not> initialized initial_state \<and>
   fst (handleRequest demo_config demo_world (call_request (str ''initialized'')) initial_state) =
     Responded (Some (ErrorEnvelope (JNum 1) (- 32603)
       (str (''Unknown tool: initialized. PROJECT_NAME='' @ [CHR 0x22, CHR 0x22] @
             '', actualMethodName='' @ [CHR 0x22] @ ''initialized'' @ [CHR 0x22] @
             ''. Available methods: pr, token, logs'')))) \<and>
   fst (handleRequest demo_config demo_world (call_request (str ''initialized''))
          (snd (handleRequest demo_config demo_world
             (JObj [(str ''jsonrpc'', JStr (str ''2.0'')), (str ''id'', JNum 0),
                    (str ''method'', JStr (str ''initialize''))]) initial_state))) =
     Responded (Some (ErrorEnvelope (JNum 1) (- 32603) (str ''this[actualMethodName] is not a function'')))"
proof -
  let ?initialize = "JObj [(str ''jsonrpc'', JStr (str ''2.0'')), (str ''id'', JNum 0),
      (str ''method'', JStr (str ''initialize''))]"
  have i: "initialized (snd (handleRequest demo_config demo_world ?initialize initial_state))"
    by (simp add: handleRequest_def completed_def Let_def logRequest_frame)
  have "\<not> initialized initial_state"
    by (simp add: initial_state_def)
  with i initialized_consulted [of demo_world initial_state]
    initialized_consulted [of demo_world "snd (handleRequest demo_config demo_world ?initialize initial_state)"]
  show ?thesis
    by simp
qed

end
